theory Spec2Isabelle
  imports Main "HOL-Library.Sublist" "HOL-Library.AList"
begin

section \<open>Strings of the host language\<close>

text \<open>
  A JavaScript string is modelled as a list of 8-bit characters, read as the code units
  U+0000 to U+00FF. On that range \<open>toLowerCase\<close> maps A-Z and the Latin-1 capitals
  (U+00C0 to U+00DE without the multiplication sign U+00D7) to the code unit 32 above
  and leaves every other code unit alone.
\<close>

definition code_unit :: "char \<Rightarrow> nat" where
  "code_unit c = of_char c"

definition lower_char :: "char \<Rightarrow> char" where
  "lower_char c =
     (let n = code_unit c
      in if (65 \<le> n \<and> n \<le> 90) \<or> (192 \<le> n \<and> n \<le> 222 \<and> n \<noteq> 215)
         then char_of (n + 32) else c)"

definition toLowerCase :: "string \<Rightarrow> string" where
  "toLowerCase s = map lower_char s"

definition upper_char :: "char \<Rightarrow> char" where
  "upper_char c =
     (let n = code_unit c
      in if 97 \<le> n \<and> n \<le> 122 then char_of (n - 32) else c)"

text \<open>The character classes of the regular expressions in the source.\<close>

definition is_lower_az :: "char \<Rightarrow> bool" where
  "is_lower_az c = (97 \<le> code_unit c \<and> code_unit c \<le> 122)"

definition is_upper_az :: "char \<Rightarrow> bool" where
  "is_upper_az c = (65 \<le> code_unit c \<and> code_unit c \<le> 90)"

definition is_digit :: "char \<Rightarrow> bool" where
  "is_digit c = (48 \<le> code_unit c \<and> code_unit c \<le> 57)"

definition is_underscore :: "char \<Rightarrow> bool" where
  "is_underscore c = (c = CHR ''_'')"

text \<open>\<open>[a-z0-9]\<close>\<close>

definition is_az09 :: "char \<Rightarrow> bool" where
  "is_az09 c = (is_lower_az c \<or> is_digit c)"

text \<open>\<open>\s\<close>: tab, line feed, vertical tab, form feed, carriage return, space, no-break space.\<close>

definition is_space :: "char \<Rightarrow> bool" where
  "is_space c = (code_unit c \<in> {9, 10, 11, 12, 13, 32, 160})"

text \<open>Line terminators: \<open>.\<close> matches every code unit but these.\<close>

definition is_line_terminator :: "char \<Rightarrow> bool" where
  "is_line_terminator c = (code_unit c = 10 \<or> code_unit c = 13)"

definition trim :: "string \<Rightarrow> string" where
  "trim s = rev (dropWhile is_space (rev (dropWhile is_space s)))"

text \<open>\<open>s.includes(w)\<close>\<close>

fun str_includes :: "string \<Rightarrow> string \<Rightarrow> bool" where
  "str_includes [] w = (w = [])"
| "str_includes (c # cs) w = (prefix w (c # cs) \<or> str_includes cs w)"

text \<open>Decimal rendering of a number inside a template literal.\<close>

fun string_of_nat :: "nat \<Rightarrow> string" where
  "string_of_nat n =
     (if n < 10 then [char_of (48 + n)]
      else string_of_nat (n div 10) @ [char_of (48 + n mod 10)])"

declare string_of_nat.simps [simp del]

section \<open>ModificationDetector.js: identifier derivation\<close>

text \<open>\<open>.replace(/[^a-z0-9]+/g, '_')\<close>: every maximal run of characters outside
  \<open>[a-z0-9]\<close> becomes one underscore.\<close>

function replace_non_alnum_runs :: "string \<Rightarrow> string" where
  "replace_non_alnum_runs [] = []"
| "replace_non_alnum_runs (c # cs) =
     (if is_az09 c then c # replace_non_alnum_runs cs
      else CHR ''_'' # replace_non_alnum_runs (dropWhile (\<lambda>x. \<not> is_az09 x) cs))"
  by pat_completeness auto
termination
  by (relation "measure length") (auto simp: le_imp_less_Suc length_dropWhile_le)

text \<open>\<open>.replace(/^_+|_+$/g, '')\<close>: the run of underscores at the start and the run at
  the end are deleted.\<close>

definition strip_underscores :: "string \<Rightarrow> string" where
  "strip_underscores s = rev (dropWhile is_underscore (rev (dropWhile is_underscore s)))"

text \<open>The characters a derived field name is made of: \<open>[a-z0-9_]\<close>.\<close>

definition field_char :: "char \<Rightarrow> bool" where
  "field_char c = (is_az09 c \<or> is_underscore c)"

definition metricToFieldName :: "string \<Rightarrow> string" where
  "metricToFieldName metricName =
     take 50 (strip_underscores (replace_non_alnum_runs (toLowerCase metricName)))"

text \<open>\<open>.split(/[^a-z0-9]+/)\<close>: the pieces between the runs of separators; a separator
  run at the start or at the end yields an empty piece there.\<close>

function split_non_alnum :: "string \<Rightarrow> string list" where
  "split_non_alnum [] = [[]]"
| "split_non_alnum (c # cs) =
     (if is_az09 c
      then (case split_non_alnum cs of
              [] \<Rightarrow> [[c]]
            | w # ws \<Rightarrow> (c # w) # ws)
      else [] # split_non_alnum (dropWhile (\<lambda>x. \<not> is_az09 x) cs))"
  by pat_completeness auto
termination
  by (relation "measure length") (auto simp: le_imp_less_Suc length_dropWhile_le)

text \<open>\<open>word.charAt(0).toUpperCase() + word.slice(1)\<close>; the words are pieces of
  \<open>[a-z0-9]\<close> characters, on which \<open>toUpperCase\<close> is \<open>upper_char\<close>.\<close>

definition capitalize :: "string \<Rightarrow> string" where
  "capitalize w = (case w of [] \<Rightarrow> [] | c # cs \<Rightarrow> upper_char c # cs)"

text \<open>\<open>.replace(/^[^A-Z]/, c => c.toUpperCase())\<close>\<close>

definition ensure_capital :: "string \<Rightarrow> string" where
  "ensure_capital s =
     (case s of [] \<Rightarrow> [] | c # cs \<Rightarrow> if is_upper_az c then c # cs else upper_char c # cs)"

definition metricToComponentName :: "string \<Rightarrow> string" where
  "metricToComponentName metricName =
     ensure_capital (concat (map capitalize (split_non_alnum (toLowerCase metricName))))"

definition inferDataType :: "string \<Rightarrow> string" where
  "inferDataType metricName =
     (let lower = toLowerCase metricName
      in if str_includes lower ''mood'' \<or> str_includes lower ''stress'' \<or> str_includes lower ''level''
         then ''INTEGER''
         else if str_includes lower ''note'' \<or> str_includes lower ''comment''
                 \<or> str_includes lower ''description''
         then ''TEXT''
         else if str_includes lower ''weight'' \<or> str_includes lower ''temp'' \<or> str_includes lower ''rate''
         then ''REAL''
         else if str_includes lower ''done'' \<or> str_includes lower ''completed''
                 \<or> str_includes lower ''check''
         then ''BOOLEAN''
         else ''INTEGER'')"

section \<open>The environment: store, files and clock\<close>

text \<open>
  The physical schema of \<open>cherry.db\<close>: for every table its columns, in order. The store
  is reached through two primitives of the sqlite3 driver, \<open>db.all\<close> with
  \<open>PRAGMA table_info\<close> and \<open>db.run\<close> with \<open>ALTER TABLE ... ADD COLUMN\<close>; both report
  an error through their callback when the store is not available. Adding a column is
  refused when the table is missing or when it already has a column of that name
  (SQLite compares column names without regard to ASCII case). SQLite also refuses a
  column name that is one of its keywords beyond the reserved list of
  \<open>validateFieldName\<close> (such as \<open>order\<close>); that refusal is not part of this model, which
  adds such a column.
\<close>

record column =
  col_name :: string
  col_type :: string
  col_default :: "string option"

type_synonym schema = "(string \<times> column list) list"

datatype store_error = store_unavailable | no_such_table | duplicate_column

datatype migration_type = add_field | soft_delete_field

record migration =
  mig_id :: string
  mig_type :: migration_type
  mig_table :: string
  mig_field :: string
  mig_dataType :: "string option"
  mig_sql :: "string option"
  mig_note :: "string option"
  executed_at :: nat

record migrations_log =
  migrations :: "migration list"
  last_migration :: "string option"

record component_info =
  c_name :: string
  c_type :: string
  c_field :: "string option"
  c_description :: string
  c_path :: string
  c_location :: string
  c_active :: bool

record component = component_info +
  registered_at :: nat

record registry =
  version :: string
  components :: "component list"
  last_modified :: "nat option"

text \<open>A backup directory: the copy of the database, of the component files and of
  \<open>active.json\<close>.\<close>

record backup =
  bk_db :: schema
  bk_components :: "(string \<times> string) list"
  bk_active :: registry

text \<open>
  The state the modules act on: the store and whether it is reachable, the migration
  log \<open>migrations.json\<close>, the registry document \<open>active.json\<close>, the component files
  (file name to content), the backup directories (keyed by their time stamp) and the
  number of times the clock has been read. Time stamps are milliseconds; the clock is a
  parameter \<open>clk\<close> giving the value of the k-th reading. Files are assumed readable and
  writable; removing a file that does not exist fails, as \<open>fs.unlink\<close> does.
\<close>

record world =
  db_up :: bool
  db :: schema
  migrations_json :: migrations_log
  active_json :: registry
  custom_dir :: "(string \<times> string) list"
  backups_dir :: "(nat \<times> backup) list"
  clock_reads :: nat

type_synonym clock = "nat \<Rightarrow> nat"

definition read_clock :: "clock \<Rightarrow> world \<Rightarrow> nat \<times> world" where
  "read_clock clk w = (clk (clock_reads w), w\<lparr>clock_reads := Suc (clock_reads w)\<rparr>)"

definition write_file :: "'k \<Rightarrow> 'v \<Rightarrow> ('k \<times> 'v) list \<Rightarrow> ('k \<times> 'v) list" where
  "write_file k v fs = AList.update k v fs"

text \<open>Copying every file of one directory into another: existing files are overwritten,
  the other files of the target stay.\<close>

definition copy_files :: "('k \<times> 'v) list \<Rightarrow> ('k \<times> 'v) list \<Rightarrow> ('k \<times> 'v) list" where
  "copy_files src dst = fold (\<lambda>(k, v). write_file k v) src dst"

definition table_info :: "schema \<Rightarrow> string \<Rightarrow> column list" where
  "table_info d t = (case map_of d t of None \<Rightarrow> [] | Some cols \<Rightarrow> cols)"

definition alter_table_add_column :: "world \<Rightarrow> string \<Rightarrow> column \<Rightarrow> store_error + schema" where
  "alter_table_add_column w t col =
     (if \<not> db_up w then Inl store_unavailable
      else case map_of (db w) t of
             None \<Rightarrow> Inl no_such_table
           | Some cols \<Rightarrow>
               if toLowerCase (col_name col) \<in> set (map (toLowerCase \<circ> col_name) cols)
               then Inl duplicate_column
               else Inr (AList.update t (cols @ [col]) (db w)))"

section \<open>SchemaMigration.js\<close>

text \<open>The exceptions the modules throw.\<close>

datatype gen_error = oracle_error string | not_export_default_function

datatype exn =
    reserved_keyword string
  | invalid_field_name string
  | invalid_data_type string
  | migration_failed store_error
  | generation_failed gen_error
  | chart_generation_failed gen_error
  | unknown_action string
  | type_error

definition reserved :: "string list" where
  "reserved = [''select'', ''insert'', ''update'', ''delete'', ''drop'', ''table'', ''from'',
               ''where'']"

text \<open>\<open>/^[a-z_][a-z0-9_]*$/i\<close>\<close>

definition ident_start :: "char \<Rightarrow> bool" where
  "ident_start c = (is_lower_az c \<or> is_upper_az c \<or> is_underscore c)"

definition ident_char :: "char \<Rightarrow> bool" where
  "ident_char c = (is_lower_az c \<or> is_upper_az c \<or> is_digit c \<or> is_underscore c)"

definition valid_field_pattern :: "string \<Rightarrow> bool" where
  "valid_field_pattern s = (case s of [] \<Rightarrow> False | c # cs \<Rightarrow> ident_start c \<and> list_all ident_char cs)"

text \<open>The validators throw or return true: \<open>Some e\<close> is the exception thrown.\<close>

definition validateFieldName :: "string \<Rightarrow> exn option" where
  "validateFieldName fieldName =
     (if toLowerCase fieldName \<in> set reserved then Some (reserved_keyword fieldName)
      else if \<not> valid_field_pattern fieldName then Some (invalid_field_name fieldName)
      else None)"

definition validTypes :: "string list" where
  "validTypes = [''TEXT'', ''INTEGER'', ''REAL'', ''BOOLEAN'', ''DATETIME'']"

text \<open>Besides a-z, the only code unit of the model that \<open>toUpperCase\<close> turns into letters
  A-Z is U+00DF, which becomes \<open>SS\<close>; no valid type contains \<open>SS\<close>, so membership in
  \<open>validTypes\<close> is decided by \<open>upper_char\<close>.\<close>

definition validateDataType :: "string \<Rightarrow> exn option" where
  "validateDataType dataType =
     (if map upper_char dataType \<in> set validTypes then None
      else Some (invalid_data_type dataType))"

definition fieldExists :: "world \<Rightarrow> string \<Rightarrow> string \<Rightarrow> bool" where
  "fieldExists w t f =
     (if \<not> db_up w then False
      else list_ex (\<lambda>col. col_name col = f) (table_info (db w) t))"

definition getMigrationsLog :: "world \<Rightarrow> migrations_log" where
  "getMigrationsLog w = migrations_json w"

text \<open>\<open>logMigration\<close> receives the record without its time stamp and adds \<open>executed_at\<close>.\<close>

definition logMigration :: "clock \<Rightarrow> world \<Rightarrow> (nat \<Rightarrow> migration) \<Rightarrow> world" where
  "logMigration clk w mig =
     (let log = getMigrationsLog w;
          (t, w1) = read_clock clk w;
          m = mig t
      in w1\<lparr>migrations_json :=
              \<lparr>migrations = migrations log @ [m], last_migration = Some (mig_id m)\<rparr>\<rparr>)"

datatype add_field_result =
    added string string
  | add_already_exists
  | add_error store_error

definition add_column_sql :: "string \<Rightarrow> string \<Rightarrow> string \<Rightarrow> string option \<Rightarrow> string" where
  "add_column_sql t f dataType defaultValue =
     ''ALTER TABLE '' @ t @ '' ADD COLUMN '' @ f @ '' '' @ dataType @
     (case defaultValue of None \<Rightarrow> [] | Some d \<Rightarrow> '' DEFAULT '' @ d)"

definition addField ::
  "clock \<Rightarrow> world \<Rightarrow> string \<Rightarrow> string \<Rightarrow> string \<Rightarrow> string option
     \<Rightarrow> (exn + add_field_result) \<times> world" where
  "addField clk w t f dataType defaultValue =
     (case validateFieldName f of
        Some e \<Rightarrow> (Inl e, w)
      | None \<Rightarrow>
     (case validateDataType dataType of
        Some e \<Rightarrow> (Inl e, w)
      | None \<Rightarrow>
     (if fieldExists w t f then (Inr add_already_exists, w)
      else
        let sql = add_column_sql t f dataType defaultValue
        in case alter_table_add_column w t
                  \<lparr>col_name = f, col_type = dataType, col_default = defaultValue\<rparr> of
             Inl err \<Rightarrow> (Inr (add_error err), w)
           | Inr d \<Rightarrow>
               let w1 = w\<lparr>db := d\<rparr>;
                   (t_id, w2) = read_clock clk w1;
                   w3 = logMigration clk w2
                          (\<lambda>ts. \<lparr>mig_id = ''add_'' @ t @ ''_'' @ f @ ''_'' @ string_of_nat t_id,
                                 mig_type = add_field, mig_table = t, mig_field = f,
                                 mig_dataType = Some dataType, mig_sql = Some sql,
                                 mig_note = None, executed_at = ts\<rparr>)
               in (Inr (added f t), w3))))"

datatype remove_field_result =
    soft_deleted string string
  | remove_not_found
  | hard_delete_not_supported

definition removeField ::
  "clock \<Rightarrow> world \<Rightarrow> string \<Rightarrow> string \<Rightarrow> bool \<Rightarrow> (exn + remove_field_result) \<times> world" where
  "removeField clk w t f softDelete =
     (case validateFieldName f of
        Some e \<Rightarrow> (Inl e, w)
      | None \<Rightarrow>
     (if \<not> fieldExists w t f then (Inr remove_not_found, w)
      else if softDelete then
        let (t_id, w1) = read_clock clk w;
            w2 = logMigration clk w1
                   (\<lambda>ts. \<lparr>mig_id = ''remove_'' @ t @ ''_'' @ f @ ''_'' @ string_of_nat t_id,
                          mig_type = soft_delete_field, mig_table = t, mig_field = f,
                          mig_dataType = None, mig_sql = None,
                          mig_note = Some ''Field hidden from UI but data preserved'',
                          executed_at = ts\<rparr>)
        in (Inr (soft_deleted f t), w2)
      else (Inr hard_delete_not_supported, w)))"

definition getActiveFields :: "world \<Rightarrow> string \<Rightarrow> string list" where
  "getActiveFields w t =
     (let log = getMigrationsLog w;
          softDeleted = map mig_field
                          (filter (\<lambda>m. mig_type m = soft_delete_field \<and> mig_table m = t)
                             (migrations log))
      in if \<not> db_up w then []
         else filter (\<lambda>n. n \<notin> set softDeleted) (map col_name (table_info (db w) t)))"

definition listMigrations :: "world \<Rightarrow> migration list" where
  "listMigrations w = migrations (getMigrationsLog w)"

section \<open>ComponentManager.js\<close>

definition COMPONENTS_DIR :: string where
  "COMPONENTS_DIR = ''/mnt/user-data/components/custom''"

definition jsx_file :: "string \<Rightarrow> string" where
  "jsx_file nm = nm @ ''.jsx''"

definition getActiveComponents :: "world \<Rightarrow> registry" where
  "getActiveComponents w = active_json w"

definition registerComponent :: "clock \<Rightarrow> world \<Rightarrow> component_info \<Rightarrow> bool \<times> world" where
  "registerComponent clk w componentInfo =
     (let active = getActiveComponents w
      in case find (\<lambda>c. c_name c = c_name componentInfo) (components active) of
           Some c \<Rightarrow> (False, w)
         | None \<Rightarrow>
             let (t_reg, w1) = read_clock clk w;
                 (t_mod, w2) = read_clock clk w1
             in (True,
                 w2\<lparr>active_json :=
                      active\<lparr>components :=
                                components active @ [component_info.extend componentInfo
                                                       (component.fields t_reg)],
                             last_modified := Some t_mod\<rparr>\<rparr>))"

text \<open>\<open>findIndex\<close>; \<open>None\<close> stands for -1.\<close>

fun findIndex :: "('a \<Rightarrow> bool) \<Rightarrow> 'a list \<Rightarrow> nat option" where
  "findIndex P [] = None"
| "findIndex P (x # xs) =
     (if P x then Some 0 else map_option Suc (findIndex P xs))"

text \<open>\<open>splice(index, 1)\<close>\<close>

definition splice1 :: "nat \<Rightarrow> 'a list \<Rightarrow> 'a list" where
  "splice1 i xs = take i xs @ drop (Suc i) xs"

definition unregisterComponent :: "clock \<Rightarrow> world \<Rightarrow> string \<Rightarrow> bool \<times> world" where
  "unregisterComponent clk w componentName =
     (let active = getActiveComponents w
      in case findIndex (\<lambda>c. c_name c = componentName) (components active) of
           None \<Rightarrow> (False, w)
         | Some i \<Rightarrow>
             let (t_mod, w1) = read_clock clk w
             in (True,
                 w1\<lparr>active_json :=
                      active\<lparr>components := splice1 i (components active),
                             last_modified := Some t_mod\<rparr>\<rparr>))"

text \<open>\<open>saveComponent\<close> writes the body and returns the path of the file.\<close>

definition saveComponent :: "world \<Rightarrow> string \<Rightarrow> string \<Rightarrow> string \<times> world" where
  "saveComponent w nm body =
     (COMPONENTS_DIR @ ''/'' @ jsx_file nm,
      w\<lparr>custom_dir := write_file (jsx_file nm) body (custom_dir w)\<rparr>)"

definition loadComponent :: "world \<Rightarrow> string \<Rightarrow> string option" where
  "loadComponent w nm = map_of (custom_dir w) (jsx_file nm)"

text \<open>\<open>deleteComponent\<close>: when \<open>fs.unlink\<close> fails the exception is caught, the registry is
  not touched and the result is false.\<close>

definition deleteComponent :: "clock \<Rightarrow> world \<Rightarrow> string \<Rightarrow> bool \<times> world" where
  "deleteComponent clk w nm =
     (case map_of (custom_dir w) (jsx_file nm) of
        None \<Rightarrow> (False, w)
      | Some body \<Rightarrow>
          let w1 = w\<lparr>custom_dir := AList.delete (jsx_file nm) (custom_dir w)\<rparr>;
              (r, w2) = unregisterComponent clk w1 nm
          in (True, w2))"

definition listComponents :: "world \<Rightarrow> component list" where
  "listComponents w = components (getActiveComponents w)"

text \<open>\<open>createBackup\<close> names the directory after the time stamp and copies the database,
  every component file and \<open>active.json\<close> into it. A directory of the same time stamp
  is reused: its database and registry copies are overwritten, its component files are
  overwritten one by one.\<close>

definition createBackup :: "clock \<Rightarrow> world \<Rightarrow> nat \<times> world" where
  "createBackup clk w =
     (let (ts, w1) = read_clock clk w;
          old_files = (case map_of (backups_dir w1) ts of
                         None \<Rightarrow> []
                       | Some b \<Rightarrow> bk_components b);
          b = \<lparr>bk_db = db w1,
               bk_components = copy_files (custom_dir w1) old_files,
               bk_active = active_json w1\<rparr>
      in (ts, w1\<lparr>backups_dir := write_file ts b (backups_dir w1)\<rparr>))"

definition restoreBackup :: "world \<Rightarrow> nat \<Rightarrow> bool \<times> world" where
  "restoreBackup w backupDir =
     (case map_of (backups_dir w) backupDir of
        None \<Rightarrow> (False, w)
      | Some b \<Rightarrow>
          (True,
           w\<lparr>db := bk_db b,
             custom_dir := copy_files (bk_components b) (custom_dir w),
             active_json := bk_active b\<rparr>))"

section \<open>ComponentGenerator.js\<close>

text \<open>
  The text-generation service is outside the program: a call either fails (the promise
  rejects, or the response has no text) or yields a text and a count of output tokens.
  The options of a request only reach the prompt and are kept abstract.
\<close>

datatype oracle_response = oracle_failed string | oracle_text string nat

datatype request_options =
    no_options
  | template_options string
  | chart_options string

record component_request =
  req_type :: string
  req_name :: "string option"
  req_description :: string
  req_options :: request_options

record gen_metadata =
  meta_name :: "string option"
  meta_type :: string
  meta_description :: string
  generated_at :: nat
  tokens_used :: nat

datatype gen_result = gen_success string gen_metadata | gen_failure gen_error

definition LF :: char where
  "LF = char_of (10::nat)"

definition backticks :: string where
  "backticks = [CHR 0x60, CHR 0x60, CHR 0x60]"

text \<open>The length of what \<open>(?:jsx?|javascript)?\<close> matches at the start of a string.\<close>

definition fence_tag_length :: "string \<Rightarrow> nat" where
  "fence_tag_length s =
     (if prefix ''jsx'' s then 3
      else if prefix ''js'' s then 2
      else if prefix ''javascript'' s then 10
      else 0)"

text \<open>
  \<open>.replace(/^```(?:jsx?|javascript)?\n?/gm, '')\<close>: at the start of the text and after
  every line terminator, three backticks with an optional language tag and an optional
  line feed are deleted. The flag tells whether the position is at the start of a line.
\<close>

fun strip_opening_fences :: "bool \<Rightarrow> string \<Rightarrow> string" where
  "strip_opening_fences bol (a # b # c # rest) =
     (if bol \<and> [a, b, c] = backticks
      then (let r = drop (fence_tag_length rest) rest
            in if prefix [LF] r then strip_opening_fences True (drop 1 r)
               else strip_opening_fences False r)
      else a # strip_opening_fences (is_line_terminator a) (b # c # rest))"
| "strip_opening_fences bol s = s"

text \<open>\<open>.replace(/```$/gm, '')\<close>: three backticks at the end of the text or right before a
  line terminator are deleted.\<close>

definition at_line_end :: "string \<Rightarrow> bool" where
  "at_line_end s = (case s of [] \<Rightarrow> True | c # cs \<Rightarrow> is_line_terminator c)"

fun strip_closing_fences :: "string \<Rightarrow> string" where
  "strip_closing_fences (a # b # c # rest) =
     (if [a, b, c] = backticks \<and> at_line_end rest
      then strip_closing_fences rest
      else a # strip_closing_fences (b # c # rest))"
| "strip_closing_fences s = s"

definition clean_generated :: "string \<Rightarrow> string" where
  "clean_generated text = strip_closing_fences (strip_opening_fences True (trim text))"

definition generateComponent ::
  "clock \<Rightarrow> world \<Rightarrow> component_request \<Rightarrow> oracle_response \<Rightarrow> gen_result \<times> world" where
  "generateComponent clk w componentRequest response =
     (case response of
        oracle_failed msg \<Rightarrow> (gen_failure (oracle_error msg), w)
      | oracle_text text toks \<Rightarrow>
          let generatedCode = clean_generated text
          in if \<not> prefix ''export default function'' generatedCode
             then (gen_failure not_export_default_function, w)
             else
               let (ts, w1) = read_clock clk w
               in (gen_success generatedCode
                     \<lparr>meta_name = req_name componentRequest,
                      meta_type = req_type componentRequest,
                      meta_description = req_description componentRequest,
                      generated_at = ts,
                      tokens_used = toks\<rparr>,
                   w1))"

text \<open>The templates carry a type, a description and options, and no name. A name that is
  not a property of the template table yields null; the names the table inherits from
  \<open>Object.prototype\<close> (such as \<open>constructor\<close>) are not template names of the program and
  are answered with null here as well.\<close>

definition getTemplate :: "string \<Rightarrow> component_request option" where
  "getTemplate templateName =
     (if templateName = ''mood_tracker'' then
        Some \<lparr>req_type = ''emoji_select'', req_name = None,
              req_description = ''Mood tracking with 5 emoji options'',
              req_options = template_options ''mood_tracker''\<rparr>
      else if templateName = ''stress_level'' then
        Some \<lparr>req_type = ''metric_input'', req_name = None,
              req_description = ''Stress level tracker (1-10 scale)'',
              req_options = template_options ''stress_level''\<rparr>
      else if templateName = ''focus_score'' then
        Some \<lparr>req_type = ''metric_input'', req_name = None,
              req_description = ''Focus/concentration score (1-10 scale)'',
              req_options = template_options ''focus_score''\<rparr>
      else if templateName = ''water_intake'' then
        Some \<lparr>req_type = ''metric_input'', req_name = None,
              req_description = ''Water intake tracker in ounces'',
              req_options = template_options ''water_intake''\<rparr>
      else None)"

section \<open>ModificationDetector.js: intent detection\<close>

text \<open>
  The trigger patterns are regular expressions with the flag \<open>i\<close>, matched by
  \<open>String.prototype.match\<close>: the leftmost position at which the backtracking matcher
  succeeds wins, alternatives are tried from left to right, \<open>+\<close> and \<open>?\<close> take as much
  as they can first and \<open>+?\<close> as little as it can. The matcher below is that search,
  with the rest of the pattern passed as a continuation. The quantifiers of the source
  only ever apply to a single character class, and the literal characters of the
  patterns are ASCII: under the flag \<open>i\<close> such a character matches itself and its other
  case.
\<close>

datatype atom = Lit char | Whitespace | Dot

datatype rx =
    Atom atom
  | Str string
  | Seq rx rx
  | Alt rx rx
  | Opt rx
  | Plus atom
  | LazyPlus atom
  | Capture nat rx

definition atom_matches :: "atom \<Rightarrow> char \<Rightarrow> bool" where
  "atom_matches a c =
     (case a of
        Lit p \<Rightarrow> lower_char c = lower_char p
      | Whitespace \<Rightarrow> is_space c
      | Dot \<Rightarrow> \<not> is_line_terminator c)"

type_synonym captures = "nat \<Rightarrow> string option"

fun match_str :: "string \<Rightarrow> string \<Rightarrow> string option" where
  "match_str [] s = Some s"
| "match_str (p # ps) [] = None"
| "match_str (p # ps) (c # cs) =
     (if atom_matches (Lit p) c then match_str ps cs else None)"

fun star_greedy :: "atom \<Rightarrow> string \<Rightarrow> (string \<Rightarrow> 'r option) \<Rightarrow> 'r option" where
  "star_greedy a [] k = k []"
| "star_greedy a (c # cs) k =
     (if atom_matches a c
      then (case star_greedy a cs k of Some r \<Rightarrow> Some r | None \<Rightarrow> k (c # cs))
      else k (c # cs))"

fun star_lazy :: "atom \<Rightarrow> string \<Rightarrow> (string \<Rightarrow> 'r option) \<Rightarrow> 'r option" where
  "star_lazy a [] k = k []"
| "star_lazy a (c # cs) k =
     (case k (c # cs) of
        Some r \<Rightarrow> Some r
      | None \<Rightarrow> if atom_matches a c then star_lazy a cs k else None)"

fun rx_match ::
  "rx \<Rightarrow> string \<Rightarrow> captures \<Rightarrow> (string \<Rightarrow> captures \<Rightarrow> captures option) \<Rightarrow> captures option" where
  "rx_match (Atom a) s caps k =
     (case s of [] \<Rightarrow> None | c # cs \<Rightarrow> if atom_matches a c then k cs caps else None)"
| "rx_match (Str p) s caps k =
     (case match_str p s of None \<Rightarrow> None | Some s' \<Rightarrow> k s' caps)"
| "rx_match (Seq r1 r2) s caps k =
     rx_match r1 s caps (\<lambda>s' caps'. rx_match r2 s' caps' k)"
| "rx_match (Alt r1 r2) s caps k =
     (case rx_match r1 s caps k of Some r \<Rightarrow> Some r | None \<Rightarrow> rx_match r2 s caps k)"
| "rx_match (Opt r) s caps k =
     (case rx_match r s caps k of Some r \<Rightarrow> Some r | None \<Rightarrow> k s caps)"
| "rx_match (Plus a) s caps k =
     (case s of
        [] \<Rightarrow> None
      | c # cs \<Rightarrow> if atom_matches a c then star_greedy a cs (\<lambda>s'. k s' caps) else None)"
| "rx_match (LazyPlus a) s caps k =
     (case s of
        [] \<Rightarrow> None
      | c # cs \<Rightarrow> if atom_matches a c then star_lazy a cs (\<lambda>s'. k s' caps) else None)"
| "rx_match (Capture n r) s caps k =
     rx_match r s caps
       (\<lambda>s' caps'. k s' (caps'(n := Some (take (length s - length s') s))))"

text \<open>\<open>userMessage.match(pattern)\<close>: the captures of the leftmost match.\<close>

fun str_match :: "rx \<Rightarrow> string \<Rightarrow> captures option" where
  "str_match r [] = rx_match r [] (\<lambda>n. None) (\<lambda>s' caps. Some caps)"
| "str_match r (c # cs) =
     (case rx_match r (c # cs) (\<lambda>n. None) (\<lambda>s' caps. Some caps) of
        Some caps \<Rightarrow> Some caps
      | None \<Rightarrow> str_match r cs)"

definition seqs :: "rx list \<Rightarrow> rx" where
  "seqs rs = foldr Seq rs (Str [])"

definition alts :: "string list \<Rightarrow> rx" where
  "alts ws = foldr (\<lambda>w r. Alt (Str w) r) (butlast ws) (Str (last ws))"

datatype action = add_metric | remove_metric | add_chart | modify_layout | undo

datatype extractor = extract_metric | extract_chart | extract_layout | extract_nothing

text \<open>\<open>/add\s+(?:a\s+)?(.+?)\s+(?:tracker|tracking)/i\<close>\<close>

definition pat_add_tracker :: rx where
  "pat_add_tracker =
     seqs [Str ''add'', Plus Whitespace, Opt (Seq (Str ''a'') (Plus Whitespace)),
           Capture 1 (LazyPlus Dot), Plus Whitespace, alts [''tracker'', ''tracking'']]"

text \<open>\<open>/track\s+(?:my\s+)?(.+)/i\<close>\<close>

definition pat_track :: rx where
  "pat_track =
     seqs [Str ''track'', Plus Whitespace, Opt (Seq (Str ''my'') (Plus Whitespace)),
           Capture 1 (Plus Dot)]"

text \<open>\<open>/(?:can you|could you)\s+track\s+(.+)/i\<close>\<close>

definition pat_can_you_track :: rx where
  "pat_can_you_track =
     seqs [alts [''can you'', ''could you''], Plus Whitespace, Str ''track'',
           Plus Whitespace, Capture 1 (Plus Dot)]"

text \<open>\<open>/remove\s+(?:the\s+)?(.+?)\s+(?:tracker|tracking|metric)/i\<close>\<close>

definition pat_remove :: rx where
  "pat_remove =
     seqs [Str ''remove'', Plus Whitespace, Opt (Seq (Str ''the'') (Plus Whitespace)),
           Capture 1 (LazyPlus Dot), Plus Whitespace,
           alts [''tracker'', ''tracking'', ''metric'']]"

text \<open>\<open>/delete\s+(?:the\s+)?(.+?)\s+(?:tracker|tracking|metric)/i\<close>\<close>

definition pat_delete :: rx where
  "pat_delete =
     seqs [Str ''delete'', Plus Whitespace, Opt (Seq (Str ''the'') (Plus Whitespace)),
           Capture 1 (LazyPlus Dot), Plus Whitespace,
           alts [''tracker'', ''tracking'', ''metric'']]"

text \<open>\<open>/stop tracking\s+(.+)/i\<close>\<close>

definition pat_stop_tracking :: rx where
  "pat_stop_tracking = seqs [Str ''stop tracking'', Plus Whitespace, Capture 1 (Plus Dot)]"

text \<open>\<open>/i (?:don't|dont) (?:use|need|track)\s+(.+)/i\<close>\<close>

definition pat_i_dont :: rx where
  "pat_i_dont =
     seqs [Str ''i '', alts [''don'' @ [CHR 0x27] @ ''t'', ''dont''], Str '' '',
           alts [''use'', ''need'', ''track''], Plus Whitespace, Capture 1 (Plus Dot)]"

text \<open>\<open>/add\s+(?:a\s+)?chart\s+(?:for|showing|of)\s+(.+)/i\<close>\<close>

definition pat_add_chart :: rx where
  "pat_add_chart =
     seqs [Str ''add'', Plus Whitespace, Opt (Seq (Str ''a'') (Plus Whitespace)),
           Str ''chart'', Plus Whitespace, alts [''for'', ''showing'', ''of''],
           Plus Whitespace, Capture 1 (Plus Dot)]"

text \<open>\<open>/(?:create|make|show me)\s+(?:a\s+)?chart\s+(?:for|of|showing)\s+(.+)/i\<close>\<close>

definition pat_create_chart :: rx where
  "pat_create_chart =
     seqs [alts [''create'', ''make'', ''show me''], Plus Whitespace,
           Opt (Seq (Str ''a'') (Plus Whitespace)), Str ''chart'', Plus Whitespace,
           alts [''for'', ''of'', ''showing''], Plus Whitespace, Capture 1 (Plus Dot)]"

text \<open>\<open>/move\s+(.+?)\s+to\s+(?:the\s+)?(.+)/i\<close>\<close>

definition pat_move :: rx where
  "pat_move =
     seqs [Str ''move'', Plus Whitespace, Capture 1 (LazyPlus Dot), Plus Whitespace,
           Str ''to'', Plus Whitespace, Opt (Seq (Str ''the'') (Plus Whitespace)),
           Capture 2 (Plus Dot)]"

text \<open>\<open>/undo\s+(?:that|the last change|last modification)/i\<close>\<close>

definition pat_undo :: rx where
  "pat_undo =
     seqs [Str ''undo'', Plus Whitespace,
           alts [''that'', ''the last change'', ''last modification'']]"

text \<open>\<open>/rollback|revert|go back/i\<close>\<close>

definition pat_rollback :: rx where
  "pat_rollback = alts [''rollback'', ''revert'', ''go back'']"

text \<open>The trigger table, in the order of the source.\<close>

definition triggers :: "(rx \<times> action \<times> extractor) list" where
  "triggers =
     [(pat_add_tracker, add_metric, extract_metric),
      (pat_track, add_metric, extract_metric),
      (pat_can_you_track, add_metric, extract_metric),
      (pat_remove, remove_metric, extract_metric),
      (pat_delete, remove_metric, extract_metric),
      (pat_stop_tracking, remove_metric, extract_metric),
      (pat_i_dont, remove_metric, extract_metric),
      (pat_add_chart, add_chart, extract_chart),
      (pat_create_chart, add_chart, extract_chart),
      (pat_move, modify_layout, extract_layout),
      (pat_undo, undo, extract_nothing),
      (pat_rollback, undo, extract_nothing)]"

text \<open>What \<open>detectModificationRequest\<close> returns when \<open>detected\<close> is true.\<close>

record detection =
  d_action :: action
  componentType :: string
  metric :: "string option"
  chart_description :: "string option"
  element :: "string option"
  location :: "string option"
  suggested_template :: "string option"
  rawMessage :: string

definition capture_trimmed :: "captures \<Rightarrow> nat \<Rightarrow> string" where
  "capture_trimmed caps n = (case caps n of None \<Rightarrow> [] | Some s \<Rightarrow> trim s)"

text \<open>The component type and the suggested template, from the metric name; an empty
  metric is falsy and skips the block.\<close>

definition classify_metric :: "string option \<Rightarrow> string \<times> string option" where
  "classify_metric m =
     (case m of
        None \<Rightarrow> (''metric_input'', None)
      | Some details_metric \<Rightarrow>
          if details_metric = [] then (''metric_input'', None)
          else
            let metric = toLowerCase details_metric
            in if str_includes metric ''mood'' then (''emoji_select'', Some ''mood_tracker'')
               else if str_includes metric ''stress'' then (''metric_input'', Some ''stress_level'')
               else if str_includes metric ''focus'' \<or> str_includes metric ''concentration''
               then (''metric_input'', Some ''focus_score'')
               else if str_includes metric ''water'' then (''metric_input'', Some ''water_intake'')
               else (''metric_input'', None))"

definition build_detection :: "string \<Rightarrow> action \<Rightarrow> extractor \<Rightarrow> captures \<Rightarrow> detection" where
  "build_detection userMessage act ex caps =
     (let m = (if ex = extract_metric then Some (capture_trimmed caps 1) else None);
          (ct, tmpl) = classify_metric m
      in \<lparr>d_action = act,
          componentType = ct,
          metric = m,
          chart_description = (if ex = extract_chart then Some (capture_trimmed caps 1) else None),
          element = (if ex = extract_layout then Some (capture_trimmed caps 1) else None),
          location = (if ex = extract_layout then Some (capture_trimmed caps 2) else None),
          suggested_template = tmpl,
          rawMessage = userMessage\<rparr>)"

text \<open>The loop over the triggers: the first pattern that matches decides.\<close>

fun first_trigger :: "(rx \<times> action \<times> extractor) list \<Rightarrow> string \<Rightarrow> detection option" where
  "first_trigger [] userMessage = None"
| "first_trigger ((pat, act, ex) # rest) userMessage =
     (case str_match pat userMessage of
        Some caps \<Rightarrow> Some (build_detection userMessage act ex caps)
      | None \<Rightarrow> first_trigger rest userMessage)"

definition detectModificationRequest :: "string \<Rightarrow> detection option" where
  "detectModificationRequest userMessage = first_trigger triggers userMessage"

section \<open>The modification processor of the server\<close>

text \<open>
  The outcome objects of the processor, without their user-facing message texts. A
  thrown exception is the left summand of the result. \<open>sendPushNotification\<close> catches
  its own errors and touches neither the schema nor the registry, so it does not appear.
\<close>

datatype mod_result =
    metric_added string string nat
  | metric_already_exists
  | metric_removed string string nat
  | metric_not_found
  | chart_added string nat
  | undid_component string
  | undid_migration string
  | nothing_to_undo
  | undo_failed

definition addMetricTracker ::
  "clock \<Rightarrow> world \<Rightarrow> oracle_response \<Rightarrow> string \<Rightarrow> string \<Rightarrow> string option
     \<Rightarrow> (exn + mod_result) \<times> world" where
  "addMetricTracker clk w response metricName compType templateName =
     (let (backupDir, w1) = createBackup clk w;
          fieldName = metricToFieldName metricName;
          componentName = metricToComponentName metricName;
          dataType = inferDataType metricName;
          (dbResult, w2) = addField clk w1 ''metrics'' fieldName dataType None
      in case dbResult of
           Inl e \<Rightarrow> (Inl e, w2)
         | Inr add_already_exists \<Rightarrow> (Inr metric_already_exists, w2)
         | Inr (add_error err) \<Rightarrow> (Inl (migration_failed err), w2)
         | Inr (added f t) \<Rightarrow>
             let template = (case templateName of
                               None \<Rightarrow> None
                             | Some tn \<Rightarrow> if tn = [] then None else getTemplate tn);
                 componentRequest =
                   (case template of
                      Some tmpl \<Rightarrow> tmpl
                    | None \<Rightarrow> \<lparr>req_type = compType, req_name = Some componentName,
                               req_description = metricName @ '' tracker'',
                               req_options = no_options\<rparr>);
                 (genResult, w3) = generateComponent clk w2 componentRequest response
             in case genResult of
                  gen_failure e \<Rightarrow> (Inl (generation_failed e), w3)
                | gen_success body meta \<Rightarrow>
                    let (componentPath, w4) = saveComponent w3 componentName body;
                        (registered, w5) =
                          registerComponent clk w4
                            \<lparr>c_name = componentName, c_type = compType,
                             c_field = Some fieldName, c_description = metricName,
                             c_path = componentPath, c_location = ''dashboard'',
                             c_active = True\<rparr>
                    in (Inr (metric_added componentName fieldName backupDir), w5))"

definition removeMetricTracker ::
  "clock \<Rightarrow> world \<Rightarrow> string \<Rightarrow> (exn + mod_result) \<times> world" where
  "removeMetricTracker clk w metricName =
     (let (backupDir, w1) = createBackup clk w;
          fieldName = metricToFieldName metricName
      in case find (\<lambda>c. c_field c = Some fieldName) (listComponents w1) of
           None \<Rightarrow> (Inr metric_not_found, w1)
         | Some component \<Rightarrow>
             let (dbResult, w2) = removeField clk w1 ''metrics'' fieldName True
             in case dbResult of
                  Inl e \<Rightarrow> (Inl e, w2)
                | Inr r \<Rightarrow>
                    let (deleted, w3) = deleteComponent clk w2 (c_name component)
                    in (Inr (metric_removed (c_name component) fieldName backupDir), w3))"

definition addChart ::
  "clock \<Rightarrow> world \<Rightarrow> oracle_response \<Rightarrow> string \<Rightarrow> (exn + mod_result) \<times> world" where
  "addChart clk w response chartDescription =
     (let (backupDir, w1) = createBackup clk w;
          componentName = metricToComponentName (chartDescription @ '' Chart'');
          componentRequest = \<lparr>req_type = ''chart'', req_name = Some componentName,
                              req_description = ''Chart showing '' @ chartDescription,
                              req_options = chart_options chartDescription\<rparr>;
          (genResult, w2) = generateComponent clk w1 componentRequest response
      in case genResult of
           gen_failure e \<Rightarrow> (Inl (chart_generation_failed e), w2)
         | gen_success body meta \<Rightarrow>
             let (componentPath, w3) = saveComponent w2 componentName body;
                 (registered, w4) =
                   registerComponent clk w3
                     \<lparr>c_name = componentName, c_type = ''chart'', c_field = None,
                      c_description = chartDescription, c_path = componentPath,
                      c_location = ''analytics'', c_active = True\<rparr>
             in (Inr (chart_added componentName backupDir), w4))"

text \<open>\<open>xs[xs.length - 1]\<close>, undefined on the empty array.\<close>

definition last_opt :: "'a list \<Rightarrow> 'a option" where
  "last_opt xs = (if xs = [] then None else Some (last xs))"

definition undoLastModification :: "clock \<Rightarrow> world \<Rightarrow> (exn + mod_result) \<times> world" where
  "undoLastModification clk w =
     (let migs = listMigrations w;
          comps = listComponents w
      in if migs = [] \<and> comps = [] then (Inr nothing_to_undo, w)
         else
           let lastMigration = last_opt migs;
               lastComponent = last_opt comps;
               migrationTime = (case lastMigration of None \<Rightarrow> 0 | Some m \<Rightarrow> executed_at m);
               componentTime = (case lastComponent of None \<Rightarrow> 0 | Some c \<Rightarrow> registered_at c)
           in if componentTime > migrationTime
              then (case lastComponent of
                      None \<Rightarrow> (Inl type_error, w)
                    | Some c \<Rightarrow>
                        let (deleted, w1) = deleteComponent clk w (c_name c)
                        in (Inr (undid_component (c_description c)), w1))
              else (case lastMigration of
                      None \<Rightarrow> (Inl type_error, w)
                    | Some m \<Rightarrow>
                        if mig_type m = add_field
                        then (let (dbResult, w1) =
                                    removeField clk w (mig_table m) (mig_field m) True
                              in case dbResult of
                                   Inl e \<Rightarrow> (Inl e, w1)
                                 | Inr r \<Rightarrow> (Inr (undid_migration (mig_field m)), w1))
                        else (Inr undo_failed, w)))"

text \<open>The request handed to the processor: the fields of a detection it reads. A
  missing metric makes the callee fail on \<open>undefined\<close> right after its backup; a missing
  chart description is concatenated as the text \<open>undefined\<close>.\<close>

definition processModification ::
  "clock \<Rightarrow> world \<Rightarrow> oracle_response \<Rightarrow> detection \<Rightarrow> (exn + mod_result) \<times> world" where
  "processModification clk w response modRequest =
     (case d_action modRequest of
        add_metric \<Rightarrow>
          (case metric modRequest of
             Some m \<Rightarrow> addMetricTracker clk w response m (componentType modRequest)
                         (suggested_template modRequest)
           | None \<Rightarrow> (Inl type_error, snd (createBackup clk w)))
      | remove_metric \<Rightarrow>
          (case metric modRequest of
             Some m \<Rightarrow> removeMetricTracker clk w m
           | None \<Rightarrow> (Inl type_error, snd (createBackup clk w)))
      | add_chart \<Rightarrow>
          (case chart_description modRequest of
             Some d \<Rightarrow> addChart clk w response d
           | None \<Rightarrow> addChart clk w response ''undefined'')
      | undo \<Rightarrow> undoLastModification clk w
      | modify_layout \<Rightarrow> (Inl (unknown_action ''modify_layout''), w))"

section \<open>Sequences of registry operations\<close>

text \<open>The three operations that change the registry document, and a run of them in
  order.\<close>

datatype registry_op =
    Register component_info
  | Unregister string
  | Delete string

definition apply_registry_op :: "clock \<Rightarrow> world \<Rightarrow> registry_op \<Rightarrow> world" where
  "apply_registry_op clk w op =
     (case op of
        Register componentInfo \<Rightarrow> snd (registerComponent clk w componentInfo)
      | Unregister nm \<Rightarrow> snd (unregisterComponent clk w nm)
      | Delete nm \<Rightarrow> snd (deleteComponent clk w nm))"

definition run_registry_ops :: "clock \<Rightarrow> world \<Rightarrow> registry_op list \<Rightarrow> world" where
  "run_registry_ops clk w ops = foldl (apply_registry_op clk) w ops"

definition unique_names :: "world \<Rightarrow> bool" where
  "unique_names w = distinct (map c_name (listComponents w))"

definition name_registered :: "world \<Rightarrow> string \<Rightarrow> bool" where
  "name_registered w nm = list_ex (\<lambda>c. c_name c = nm) (listComponents w)"

section \<open>Example states\<close>

text \<open>A store with the \<open>metrics\<close> table, an empty migration log, an empty registry, no
  component files and no backups.\<close>

definition fresh_world :: world where
  "fresh_world =
     \<lparr>db_up = True,
      db = [(''metrics'',
             [\<lparr>col_name = ''id'', col_type = ''INTEGER'', col_default = None\<rparr>,
              \<lparr>col_name = ''date'', col_type = ''TEXT'', col_default = None\<rparr>,
              \<lparr>col_name = ''sleep'', col_type = ''INTEGER'', col_default = None\<rparr>])],
      migrations_json = \<lparr>migrations = [], last_migration = None\<rparr>,
      active_json = \<lparr>version = ''11.0.0'', components = [], last_modified = None\<rparr>,
      custom_dir = [],
      backups_dir = [],
      clock_reads = 0\<rparr>"

text \<open>A clock that advances by one millisecond between two readings, and a clock read
  several times within the same millisecond.\<close>

definition ticking_clock :: clock where
  "ticking_clock k = 1000 + k"

definition same_ms_clock :: clock where
  "same_ms_clock k = 1000"

text \<open>Answers of the text-generation service.\<close>

definition water_component :: oracle_response where
  "water_component = oracle_text ''export default function Water({ onSave }) { return null; }'' 24"

definition refusal :: oracle_response where
  "refusal = oracle_text ''Sorry, I cannot help with that.'' 9"

definition eval_component :: oracle_response where
  "eval_component =
     oracle_text ''export default function Water({ onSave }) { return eval(onSave); }'' 27"

text \<open>The state after the request to track water has been carried out on the fresh
  state, with the clock ticking and with all readings in one millisecond.\<close>

definition water_world :: world where
  "water_world =
     snd (addMetricTracker ticking_clock fresh_world water_component ''water''
            ''metric_input'' (Some ''water_intake''))"

definition water_world_same_ms :: world where
  "water_world_same_ms =
     snd (addMetricTracker same_ms_clock fresh_world water_component ''water''
            ''metric_input'' (Some ''water_intake''))"

definition water_info :: component_info where
  "water_info =
     \<lparr>c_name = ''Water'', c_type = ''metric_input'', c_field = Some ''water'',
      c_description = ''water'', c_path = ''/mnt/user-data/components/custom/Water.jsx'',
      c_location = ''dashboard'', c_active = True\<rparr>"

definition protein_chart_info :: component_info where
  "protein_chart_info =
     \<lparr>c_name = ''ProteinChart'', c_type = ''chart'', c_field = None,
      c_description = ''protein'',
      c_path = ''/mnt/user-data/components/custom/ProteinChart.jsx'',
      c_location = ''analytics'', c_active = True\<rparr>"

text \<open>A component body of any length: a valid component followed by a line comment of
  \<open>n\<close> characters.\<close>

definition big_body :: "nat \<Rightarrow> string" where
  "big_body n = ''export default function Big() { return null; } //'' @ replicate n CHR ''x''"

definition water_request :: component_request where
  "water_request =
     \<lparr>req_type = ''metric_input'', req_name = Some ''Water'',
      req_description = ''water tracker'', req_options = no_options\<rparr>"

text \<open>The body of a successful generation result.\<close>

definition gen_code :: "gen_result \<Rightarrow> string option" where
  "gen_code r = (case r of gen_success body meta \<Rightarrow> Some body | gen_failure e \<Rightarrow> None)"

text \<open>The request to track mood on the fresh state, answered by the service with a
  refusal.\<close>

definition mood_refused :: "(exn + mod_result) \<times> world" where
  "mood_refused =
     addMetricTracker ticking_clock fresh_world refusal ''mood'' ''emoji_select''
       (Some ''mood_tracker'')"

text \<open>Two subjects with different field names and the same component name: the state
  after \<open>vitamin d 3\<close> is tracked, and the request to track \<open>vitamin d3\<close> on it.\<close>

definition vitamin_world :: world where
  "vitamin_world =
     snd (addMetricTracker ticking_clock fresh_world water_component ''vitamin d 3''
            ''metric_input'' None)"

definition vitamin_again :: "(exn + mod_result) \<times> world" where
  "vitamin_again =
     addMetricTracker ticking_clock vitamin_world water_component ''vitamin d3''
       ''metric_input'' None"

text \<open>The schema and the registry document together.\<close>

definition schema_and_registry :: "world \<Rightarrow> schema \<times> registry" where
  "schema_and_registry w = (db w, active_json w)"

text \<open>Whether the backup directory \<open>dir\<close> holds the schema and the registry of \<open>w\<close>.\<close>

definition snapshot_of :: "world \<Rightarrow> nat \<Rightarrow> world \<Rightarrow> bool" where
  "snapshot_of w' dir w =
     (case map_of (backups_dir w') dir of
        None \<Rightarrow> False
      | Some b \<Rightarrow> bk_db b = db w \<and> bk_active b = active_json w)"

section \<open>Verified properties\<close>

subsection \<open>Identifier derivation\<close>

lemma replace_runs_field_chars: "list_all field_char (replace_non_alnum_runs s)"
  by (induction s rule: replace_non_alnum_runs.induct)
     (simp_all add: field_char_def is_underscore_def)

lemma list_all_strip_underscores:
  "list_all P s \<Longrightarrow> list_all P (strip_underscores s)"
  by (auto simp: strip_underscores_def list_all_iff dest!: set_dropWhileD)

lemma strip_underscores_prefix:
  "\<exists>ys. dropWhile is_underscore s = strip_underscores s @ ys"
proof -
  let ?x = "dropWhile is_underscore s"
  have "rev ?x = takeWhile is_underscore (rev ?x) @ dropWhile is_underscore (rev ?x)"
    by simp
  then have "?x = rev (dropWhile is_underscore (rev ?x)) @ rev (takeWhile is_underscore (rev ?x))"
    by (metis rev_append rev_rev_ident)
  then show ?thesis
    by (auto simp: strip_underscores_def)
qed

lemma strip_underscores_head:
  "(case strip_underscores s of [] \<Rightarrow> True | c # cs \<Rightarrow> \<not> is_underscore c)"
proof (cases "strip_underscores s")
  case Nil
  then show ?thesis by simp
next
  case (Cons c cs)
  from strip_underscores_prefix [of s] obtain ys where
    "dropWhile is_underscore s = strip_underscores s @ ys" by blast
  with Cons have "hd (dropWhile is_underscore s) = c" and "dropWhile is_underscore s \<noteq> []"
    by simp_all
  then have "\<not> is_underscore c"
    using hd_dropWhile [of is_underscore s] by auto
  with Cons show ?thesis by simp
qed

lemma take_head:
  "(case xs of [] \<Rightarrow> True | c # cs \<Rightarrow> P c) \<Longrightarrow> (case take (Suc n) xs of [] \<Rightarrow> True | c # cs \<Rightarrow> P c)"
  by (cases xs) simp_all

lemma field_name_chars: "list_all field_char (metricToFieldName s)"
proof -
  have "list_all field_char (strip_underscores (replace_non_alnum_runs (toLowerCase s)))"
    by (rule list_all_strip_underscores) (rule replace_runs_field_chars)
  then show ?thesis
    by (auto simp: metricToFieldName_def list_all_iff dest: in_set_takeD)
qed

lemma field_name_head:
  "(case metricToFieldName s of [] \<Rightarrow> True | c # cs \<Rightarrow> \<not> is_underscore c)"
  unfolding metricToFieldName_def
  using take_head [OF strip_underscores_head, of 49 "replace_non_alnum_runs (toLowerCase s)"]
  by simp

lemma lower_char_field_char: "field_char c \<Longrightarrow> lower_char c = c"
  by (auto simp: field_char_def is_az09_def is_lower_az_def is_digit_def is_underscore_def
                 lower_char_def Let_def code_unit_def)

lemma toLowerCase_field_chars: "list_all field_char s \<Longrightarrow> toLowerCase s = s"
  by (induction s) (simp_all add: toLowerCase_def lower_char_field_char)

lemma field_char_ident: "field_char c \<Longrightarrow> ident_char c"
  by (auto simp: field_char_def ident_char_def is_az09_def)

lemma ident_start_field_char:
  "field_char c \<Longrightarrow> \<not> is_underscore c \<Longrightarrow> ident_start c = is_lower_az c"
  by (auto simp: field_char_def ident_start_def is_az09_def is_lower_az_def is_upper_az_def
                 is_digit_def)

lemma valid_pattern_field_chars:
  assumes "list_all field_char r" and "(case r of [] \<Rightarrow> True | c # cs \<Rightarrow> \<not> is_underscore c)"
  shows "valid_field_pattern r = (case r of [] \<Rightarrow> False | c # cs \<Rightarrow> is_lower_az c)"
proof (cases r)
  case Nil
  then show ?thesis by (simp add: valid_field_pattern_def)
next
  case (Cons c cs)
  with assms have "field_char c" "\<not> is_underscore c" "list_all ident_char cs"
    by (auto simp: list_all_iff field_char_ident)
  with Cons show ?thesis
    by (simp add: valid_field_pattern_def ident_start_field_char)
qed

text \<open>
  What the derivation does establish: for every subject, \<open>metricToFieldName\<close> returns a
  string of characters from \<open>[a-z0-9_]\<close>, of length at most 50, that does not begin with
  an underscore; \<open>validateFieldName\<close> accepts the result exactly when it begins with a
  letter and is not reserved.
\<close>

theorem field_name_shape:
  "list_all field_char (metricToFieldName s) \<and>
   length (metricToFieldName s) \<le> 50 \<and>
   (case metricToFieldName s of [] \<Rightarrow> True | c # cs \<Rightarrow> \<not> is_underscore c) \<and>
   (validateFieldName (metricToFieldName s) = None) =
     (metricToFieldName s \<notin> set reserved \<and>
      (case metricToFieldName s of [] \<Rightarrow> False | c # cs \<Rightarrow> is_lower_az c))"
proof -
  have len: "length (metricToFieldName s) \<le> 50"
    by (simp add: metricToFieldName_def)
  have "(validateFieldName (metricToFieldName s) = None) =
     (metricToFieldName s \<notin> set reserved \<and>
      (case metricToFieldName s of [] \<Rightarrow> False | c # cs \<Rightarrow> is_lower_az c))"
    using valid_pattern_field_chars [OF field_name_chars field_name_head, of s]
          toLowerCase_field_chars [OF field_name_chars, of s]
    by (simp add: validateFieldName_def)
  with len field_name_chars field_name_head show ?thesis by simp
qed

theorem field_name_shape_witness:
  "metricToFieldName ''Water Intake (oz)!'' = ''water_intake_oz'' \<and>
   list_all field_char (metricToFieldName ''Water Intake (oz)!'') \<and>
   length (metricToFieldName ''Water Intake (oz)!'') \<le> 50 \<and>
   validateFieldName (metricToFieldName ''Water Intake (oz)!'') = None"
proof -
  have e: "metricToFieldName ''Water Intake (oz)!'' = ''water_intake_oz''" by code_simp
  have r: "''water_intake_oz'' \<notin> set reserved" by code_simp
  have l: "is_lower_az CHR ''w''" by code_simp
  from e r l field_name_shape [of "''Water Intake (oz)!''"] show ?thesis by simp
qed

text \<open>
  Claim C3. For every subject, \<open>metricToFieldName\<close> is to return a name that matches the
  identifier grammar, has at most 50 characters and is not a reserved word; the comment
  on the function says it converts the metric name to a valid field name. The code
  misses three cases. The subject \<open>select\<close> is returned as it is, a reserved word;
  \<open>7 day streak\<close> becomes a name that begins with a digit; \<open>!!!\<close> becomes the empty
  string. \<open>validateFieldName\<close> throws on all three, so the request to track \<open>select\<close>
  ends in that exception. The subject \<open>7 day\<close> with a space in front shows the slip in
  the stripping step: the underscore that would make the name valid is removed.
\<close>

theorem derived_field_name_rejected:
  "metricToFieldName ''select'' = ''select'' \<and>
   metricToFieldName ''select'' \<in> set reserved \<and>
   validateFieldName (metricToFieldName ''select'') = Some (reserved_keyword ''select'') \<and>
   metricToFieldName ''7 day streak'' = ''7_day_streak'' \<and>
   \<not> valid_field_pattern (metricToFieldName ''7 day streak'') \<and>
   validateFieldName (metricToFieldName ''7 day streak'')
     = Some (invalid_field_name ''7_day_streak'') \<and>
   metricToFieldName ''!!!'' = [] \<and>
   validateFieldName (metricToFieldName ''!!!'') = Some (invalid_field_name []) \<and>
   metricToFieldName '' 7 day'' = ''7_day'' \<and>
   validateFieldName ''7_day'' = Some (invalid_field_name ''7_day'') \<and>
   validateFieldName ''_7_day'' = None \<and>
   fst (addMetricTracker ticking_clock fresh_world water_component ''select''
          ''metric_input'' None) = Inl (reserved_keyword ''select'')"
  by code_simp

subsection \<open>Schema migration\<close>

lemma add_column_result:
  assumes "alter_table_add_column w t \<lparr>col_name = f, col_type = ty, col_default = d\<rparr> = Inr sch"
  shows "db_up w \<and> list_ex (\<lambda>col. col_name col = f) (table_info sch t)"
proof -
  from assms have up: "db_up w"
    by (simp add: alter_table_add_column_def split: if_splits)
  from assms up obtain cols where
    cols: "map_of (db w) t = Some cols" and
    sch: "sch = AList.update t (cols @ [\<lparr>col_name = f, col_type = ty, col_default = d\<rparr>]) (db w)"
    by (auto simp: alter_table_add_column_def split: option.splits if_splits)
  have "map_of sch t = Some (cols @ [\<lparr>col_name = f, col_type = ty, col_default = d\<rparr>])"
    by (simp add: sch update_conv')
  then have "list_ex (\<lambda>col. col_name col = f) (table_info sch t)"
    by (simp add: table_info_def list_ex_iff)
  with up show ?thesis by simp
qed

lemma addField_added_fieldExists:
  assumes "addField clk w t f ty d = (Inr (added f' t'), w1)"
  shows "fieldExists w1 t f" and "validateFieldName f = None" and "validateDataType ty = None"
proof -
  from assms show v: "validateFieldName f = None"
    by (simp add: addField_def split: option.splits)
  from assms v show dt: "validateDataType ty = None"
    by (simp add: addField_def split: option.splits)
  from assms v dt have ne: "\<not> fieldExists w t f"
    by (simp add: addField_def split: if_splits)
  from assms v dt ne obtain sch where
    alt: "alter_table_add_column w t \<lparr>col_name = f, col_type = ty, col_default = d\<rparr> = Inr sch"
    by (cases "alter_table_add_column w t \<lparr>col_name = f, col_type = ty, col_default = d\<rparr>")
       (simp_all add: addField_def)
  from assms v dt ne alt have "db w1 = sch" and "db_up w1 = db_up w"
    by (auto simp: addField_def Let_def logMigration_def read_clock_def getMigrationsLog_def)
  with add_column_result [OF alt] show "fieldExists w1 t f"
    by (simp add: fieldExists_def)
qed

text \<open>
  Claim C7. After \<open>addField(t, f, T)\<close> has succeeded, a second \<open>addField(t, f, T)\<close>, at any
  later time and with any default value, returns the outcome \<open>already_exists\<close> and hands
  back the state it was given: no column is added and the migration log gets no new
  record.
\<close>

theorem addField_twice_already_exists:
  assumes "addField clk w t f ty d = (Inr (added f' t'), w1)"
  shows "addField clk' w1 t f ty d' = (Inr add_already_exists, w1)"
  using addField_added_fieldExists [OF assms]
  by (simp add: addField_def)

theorem addField_twice_already_exists_witness:
  "fst (addField ticking_clock fresh_world ''metrics'' ''water'' ''INTEGER'' None)
     = Inr (added ''water'' ''metrics'') \<and>
   addField ticking_clock
      (snd (addField ticking_clock fresh_world ''metrics'' ''water'' ''INTEGER'' None))
      ''metrics'' ''water'' ''INTEGER'' None
     = (Inr add_already_exists,
        snd (addField ticking_clock fresh_world ''metrics'' ''water'' ''INTEGER'' None))"
proof -
  have fst_eq: "fst (addField ticking_clock fresh_world ''metrics'' ''water'' ''INTEGER'' None)
     = Inr (added ''water'' ''metrics'')"
    by code_simp
  then have h: "addField ticking_clock fresh_world ''metrics'' ''water'' ''INTEGER'' None
     = (Inr (added ''water'' ''metrics''),
        snd (addField ticking_clock fresh_world ''metrics'' ''water'' ''INTEGER'' None))"
    by (simp add: prod_eq_iff)
  from fst_eq addField_twice_already_exists [OF h] show ?thesis by simp
qed

text \<open>
  Claim C8. \<open>removeField\<close> with \<open>softDelete = false\<close> never changes the state, so neither
  the physical schema nor the migration log, and never reports a deletion: the name is
  validated first (an invalid one throws), a field that is not in the table gives
  \<open>not_found\<close>, and a field that exists gives \<open>hard_delete_not_supported\<close>.
\<close>

theorem removeField_hard_delete_rejected:
  "snd (removeField clk w t f False) = w \<and>
   fst (removeField clk w t f False) =
     (case validateFieldName f of
        Some e \<Rightarrow> Inl e
      | None \<Rightarrow> if fieldExists w t f then Inr hard_delete_not_supported
                else Inr remove_not_found)"
  by (simp add: removeField_def split: option.splits)

theorem removeField_hard_delete_rejected_witness:
  "validateFieldName ''sleep'' = None \<and> fieldExists fresh_world ''metrics'' ''sleep'' \<and>
   snd (removeField ticking_clock fresh_world ''metrics'' ''sleep'' False) = fresh_world \<and>
   fst (removeField ticking_clock fresh_world ''metrics'' ''sleep'' False)
     = Inr hard_delete_not_supported"
proof -
  have v: "validateFieldName ''sleep'' = None" by code_simp
  have e: "fieldExists fresh_world ''metrics'' ''sleep''" by code_simp
  from v e removeField_hard_delete_rejected [of ticking_clock fresh_world "''metrics''" "''sleep''"]
  show ?thesis by simp
qed

lemma removeField_soft_result:
  assumes "removeField clk w t f True = (Inr (soft_deleted f' t'), w1)"
  shows "validateFieldName f = None" and "fieldExists w1 t f"
    and "\<exists>m \<in> set (listMigrations w1).
           mig_type m = soft_delete_field \<and> mig_table m = t \<and> mig_field m = f"
proof -
  from assms show v: "validateFieldName f = None"
    by (simp add: removeField_def split: option.splits)
  from assms v have ex: "fieldExists w t f"
    by (simp add: removeField_def split: if_splits)
  from assms v ex have w1: "db w1 = db w" "db_up w1 = db_up w"
    by (auto simp: removeField_def Let_def logMigration_def read_clock_def getMigrationsLog_def)
  with ex show "fieldExists w1 t f"
    by (simp add: fieldExists_def split: if_splits)
  from assms v ex have
    "listMigrations w1 = listMigrations w @
       [\<lparr>mig_id = ''remove_'' @ t @ ''_'' @ f @ ''_'' @ string_of_nat (clk (clock_reads w)),
         mig_type = soft_delete_field, mig_table = t, mig_field = f,
         mig_dataType = None, mig_sql = None,
         mig_note = Some ''Field hidden from UI but data preserved'',
         executed_at = clk (Suc (clock_reads w))\<rparr>]"
    by (auto simp: removeField_def Let_def logMigration_def read_clock_def getMigrationsLog_def
                   listMigrations_def)
  then show "\<exists>m \<in> set (listMigrations w1).
           mig_type m = soft_delete_field \<and> mig_table m = t \<and> mig_field m = f"
    by simp
qed

lemma soft_deleted_not_active:
  assumes "\<exists>m \<in> set (listMigrations w). mig_type m = soft_delete_field \<and> mig_table m = t \<and> mig_field m = f"
  shows "f \<notin> set (getActiveFields w t)"
  using assms
  by (auto simp: getActiveFields_def listMigrations_def Let_def)

text \<open>
  Claim C2, as the code has it. After a successful soft \<open>removeField(t, f)\<close> the field
  \<open>f\<close> is not among \<open>getActiveFields(t)\<close>. A later \<open>addField(t, f, T)\<close> changes nothing:
  the column is still in the table, so for a valid type the outcome is \<open>already_exists\<close>,
  no record is logged, and \<open>f\<close> stays out of the active fields. The view leaves out every
  field that has a soft-delete record for the table, whatever was logged afterwards.
\<close>

theorem soft_deleted_field_stays_hidden:
  assumes "removeField clk w t f True = (Inr (soft_deleted f' t'), w1)"
  shows "f \<notin> set (getActiveFields w1 t) \<and>
         snd (addField clk' w1 t f ty d) = w1 \<and>
         (validateDataType ty = None \<longrightarrow> fst (addField clk' w1 t f ty d) = Inr add_already_exists) \<and>
         f \<notin> set (getActiveFields (snd (addField clk' w1 t f ty d)) t)"
proof -
  note r = removeField_soft_result [OF assms]
  have hidden: "f \<notin> set (getActiveFields w1 t)"
    using r(3) by (rule soft_deleted_not_active)
  have same: "snd (addField clk' w1 t f ty d) = w1"
    using r(1) r(2) by (simp add: addField_def split: option.splits)
  have outcome: "validateDataType ty = None \<longrightarrow> fst (addField clk' w1 t f ty d) = Inr add_already_exists"
    using r(1) r(2) by (simp add: addField_def)
  from hidden same outcome show ?thesis by simp
qed

theorem soft_deleted_field_stays_hidden_witness:
  "fst (removeField ticking_clock fresh_world ''metrics'' ''sleep'' True)
     = Inr (soft_deleted ''sleep'' ''metrics'') \<and>
   validateDataType ''INTEGER'' = None \<and>
   ''sleep'' \<notin> set (getActiveFields
                      (snd (removeField ticking_clock fresh_world ''metrics'' ''sleep'' True))
                      ''metrics'') \<and>
   fst (addField ticking_clock
          (snd (removeField ticking_clock fresh_world ''metrics'' ''sleep'' True))
          ''metrics'' ''sleep'' ''INTEGER'' None) = Inr add_already_exists"
proof -
  have f: "fst (removeField ticking_clock fresh_world ''metrics'' ''sleep'' True)
             = Inr (soft_deleted ''sleep'' ''metrics'')"
    by code_simp
  then have h: "removeField ticking_clock fresh_world ''metrics'' ''sleep'' True
                  = (Inr (soft_deleted ''sleep'' ''metrics''),
                     snd (removeField ticking_clock fresh_world ''metrics'' ''sleep'' True))"
    by (simp add: prod_eq_iff)
  have v: "validateDataType ''INTEGER'' = None" by code_simp
  from f v soft_deleted_field_stays_hidden [OF h, of ticking_clock "''INTEGER''" None]
  show ?thesis by simp
qed

text \<open>The field does not come back: \<open>sleep\<close> is soft-deleted and added again, and is
  still missing from the active fields.\<close>

theorem readded_field_counterexample:
  "fst (removeField ticking_clock fresh_world ''metrics'' ''sleep'' True)
     = Inr (soft_deleted ''sleep'' ''metrics'') \<and>
   ''sleep'' \<notin> set (getActiveFields
       (snd (addField ticking_clock
               (snd (removeField ticking_clock fresh_world ''metrics'' ''sleep'' True))
               ''metrics'' ''sleep'' ''INTEGER'' None))
       ''metrics'')"
  by code_simp

subsection \<open>Component registry\<close>

lemma distinct_map_splice1:
  assumes "distinct (map f xs)"
  shows "distinct (map f (splice1 i xs))"
proof -
  have "map f (splice1 i xs) = take i (map f xs) @ drop (Suc i) (map f xs)"
    by (simp add: splice1_def take_map drop_map)
  moreover have "distinct (take i (map f xs) @ drop (Suc i) (map f xs))"
    using assms set_take_disj_set_drop_if_distinct [of "map f xs" i "Suc i"]
    by (simp add: distinct_take distinct_drop)
  ultimately show ?thesis by simp
qed

lemma register_duplicate:
  assumes "name_registered w (c_name info)"
  shows "registerComponent clk w info = (False, w)"
proof -
  from assms obtain c where "find (\<lambda>c. c_name c = c_name info) (components (active_json w)) = Some c"
    by (cases "find (\<lambda>c. c_name c = c_name info) (components (active_json w))")
       (auto simp: name_registered_def listComponents_def getActiveComponents_def
                   find_None_iff list_ex_iff)
  then show ?thesis
    by (simp add: registerComponent_def getActiveComponents_def)
qed

lemma register_unique:
  assumes "unique_names w"
  shows "unique_names (snd (registerComponent clk w info))"
proof (cases "find (\<lambda>c. c_name c = c_name info) (components (active_json w))")
  case None
  then have "c_name info \<notin> c_name ` set (components (active_json w))"
    by (auto simp: find_None_iff)
  with assms None show ?thesis
    by (simp add: registerComponent_def getActiveComponents_def unique_names_def
                  listComponents_def read_clock_def Let_def component_info.defs)
next
  case (Some c)
  with assms show ?thesis
    by (simp add: registerComponent_def getActiveComponents_def)
qed

lemma unregister_unique:
  assumes "unique_names w"
  shows "unique_names (snd (unregisterComponent clk w nm))"
  using assms
  by (cases "findIndex (\<lambda>c. c_name c = nm) (components (active_json w))")
     (simp_all add: unregisterComponent_def getActiveComponents_def unique_names_def
                    listComponents_def read_clock_def Let_def distinct_map_splice1)

lemma delete_unique:
  assumes "unique_names w"
  shows "unique_names (snd (deleteComponent clk w nm))"
proof (cases "map_of (custom_dir w) (jsx_file nm)")
  case None
  with assms show ?thesis by (simp add: deleteComponent_def)
next
  case (Some body)
  let ?w1 = "w\<lparr>custom_dir := AList.delete (jsx_file nm) (custom_dir w)\<rparr>"
  from assms have "unique_names ?w1"
    by (simp add: unique_names_def listComponents_def getActiveComponents_def)
  then have "unique_names (snd (unregisterComponent clk ?w1 nm))"
    by (rule unregister_unique)
  with Some show ?thesis
    by (cases "unregisterComponent clk ?w1 nm") (simp add: deleteComponent_def)
qed

lemma apply_op_unique:
  "unique_names w \<Longrightarrow> unique_names (apply_registry_op clk w op)"
  by (cases op) (simp_all add: apply_registry_op_def register_unique unregister_unique delete_unique)

lemma run_ops_unique:
  "unique_names w \<Longrightarrow> unique_names (run_registry_ops clk w ops)"
  unfolding run_registry_ops_def
  by (induction ops arbitrary: w) (simp_all add: apply_op_unique)

text \<open>
  Claim C10. Registering a record whose name is already in the registry returns false
  and hands back the state it was given, so the registry document keeps its components
  and its \<open>last_modified\<close> stamp; and when the names of the registry are pairwise
  different, they still are after any sequence of register, unregister and delete
  operations; in particular they are after any such sequence that starts from a
  registry without components, as \<open>ensureDirectories\<close> creates it.
\<close>

theorem registry_names_stay_unique:
  "(name_registered w (c_name info) \<longrightarrow> registerComponent clk w info = (False, w)) \<and>
   (unique_names w \<longrightarrow> unique_names (run_registry_ops clk w ops)) \<and>
   (listComponents w = [] \<longrightarrow> unique_names (run_registry_ops clk w ops))"
proof -
  have "listComponents w = [] \<longrightarrow> unique_names w"
    by (simp add: unique_names_def)
  then show ?thesis
    by (simp add: register_duplicate run_ops_unique)
qed

theorem registry_names_stay_unique_witness:
  "name_registered water_world (c_name water_info) \<and>
   registerComponent ticking_clock water_world water_info = (False, water_world) \<and>
   unique_names water_world \<and>
   unique_names
     (run_registry_ops ticking_clock water_world
        [Register protein_chart_info, Register water_info, Unregister ''Water'',
         Delete ''ProteinChart'']) \<and>
   listComponents fresh_world = [] \<and>
   unique_names
     (run_registry_ops ticking_clock fresh_world
        [Register water_info, Register water_info, Register protein_chart_info,
         Unregister ''Water''])"
proof -
  have r: "name_registered water_world (c_name water_info)" by code_simp
  have u: "unique_names water_world" by code_simp
  have e: "listComponents fresh_world = []" by code_simp
  from r u e
    registry_names_stay_unique [of water_world water_info ticking_clock
      "[Register protein_chart_info, Register water_info, Unregister ''Water'',
        Delete ''ProteinChart'']"]
    registry_names_stay_unique [of fresh_world water_info ticking_clock
      "[Register water_info, Register water_info, Register protein_chart_info,
        Unregister ''Water'']"]
  show ?thesis by simp
qed

subsection \<open>Component generator\<close>

lemma gate_failure:
  assumes "\<not> prefix ''export default function'' (clean_generated text)"
  shows "generateComponent clk w req (oracle_text text toks) = (gen_failure not_export_default_function, w)"
  using assms by (simp add: generateComponent_def)

lemma createBackup_frame:
  "custom_dir (snd (createBackup clk w)) = custom_dir w"
  "active_json (snd (createBackup clk w)) = active_json w"
  by (simp_all add: createBackup_def read_clock_def Let_def)

lemma logMigration_frame:
  "custom_dir (logMigration clk w mig) = custom_dir w"
  "active_json (logMigration clk w mig) = active_json w"
  by (simp_all add: logMigration_def read_clock_def Let_def)

lemma addField_frame:
  "custom_dir (snd (addField clk w t f ty d)) = custom_dir w"
  "active_json (snd (addField clk w t f ty d)) = active_json w"
  by (simp_all add: addField_def read_clock_def Let_def logMigration_frame
               split: option.splits sum.splits)

lemma addMetricTracker_rejected_frame:
  assumes "\<not> prefix ''export default function'' (clean_generated text)"
  shows "custom_dir (snd (addMetricTracker clk w (oracle_text text toks) m ct tn)) = custom_dir w"
    and "active_json (snd (addMetricTracker clk w (oracle_text text toks) m ct tn)) = active_json w"
proof -
  obtain b w1 where cb: "createBackup clk w = (b, w1)" by (cases "createBackup clk w")
  obtain r w2 where af: "addField clk w1 ''metrics'' (metricToFieldName m) (inferDataType m) None = (r, w2)"
    by (cases "addField clk w1 ''metrics'' (metricToFieldName m) (inferDataType m) None")
  from cb createBackup_frame [of clk w] have f1: "custom_dir w1 = custom_dir w" "active_json w1 = active_json w"
    by simp_all
  from af addField_frame [of clk w1 "''metrics''" "metricToFieldName m" "inferDataType m" None]
  have f2: "custom_dir w2 = custom_dir w1" "active_json w2 = active_json w1"
    by simp_all
  have "snd (addMetricTracker clk w (oracle_text text toks) m ct tn) = w2"
    using cb af gate_failure [OF assms]
    by (simp add: addMetricTracker_def Let_def split: sum.splits add_field_result.splits)
  with f1 f2 show "custom_dir (snd (addMetricTracker clk w (oracle_text text toks) m ct tn)) = custom_dir w"
    and "active_json (snd (addMetricTracker clk w (oracle_text text toks) m ct tn)) = active_json w"
    by simp_all
qed

lemma addChart_rejected_frame:
  assumes "\<not> prefix ''export default function'' (clean_generated text)"
  shows "custom_dir (snd (addChart clk w (oracle_text text toks) d)) = custom_dir w"
    and "active_json (snd (addChart clk w (oracle_text text toks) d)) = active_json w"
proof -
  obtain b w1 where cb: "createBackup clk w = (b, w1)" by (cases "createBackup clk w")
  from cb createBackup_frame [of clk w] have f1: "custom_dir w1 = custom_dir w" "active_json w1 = active_json w"
    by simp_all
  have "snd (addChart clk w (oracle_text text toks) d) = w1"
    using cb gate_failure [OF assms]
    by (simp add: addChart_def Let_def)
  with f1 show "custom_dir (snd (addChart clk w (oracle_text text toks) d)) = custom_dir w"
    and "active_json (snd (addChart clk w (oracle_text text toks) d)) = active_json w"
    by simp_all
qed

lemma strip_opening_no_backtick:
  "CHR 0x60 \<notin> set s \<Longrightarrow> strip_opening_fences b s = s"
  by (induction b s rule: strip_opening_fences.induct) (auto simp: backticks_def)

lemma strip_closing_no_backtick:
  "CHR 0x60 \<notin> set s \<Longrightarrow> strip_closing_fences s = s"
  by (induction s rule: strip_closing_fences.induct) (auto simp: backticks_def)

lemma dropWhile_rev_last:
  assumes "xs \<noteq> []" and "\<not> P (last xs)"
  shows "dropWhile P (rev xs) = rev xs"
  using assms by (simp add: dropWhile_eq_self_iff hd_rev)

lemma trim_big_body: "trim (big_body n) = big_body n"
proof -
  have e: "\<not> is_space CHR ''e''"
    by (simp add: is_space_def code_unit_def)
  have lead: "dropWhile is_space (big_body n) = big_body n"
    using e by (simp add: big_body_def)
  have "last (big_body n) = CHR ''/'' \<or> last (big_body n) = CHR ''x''"
    by (cases n) (simp_all add: big_body_def)
  then have "\<not> is_space (last (big_body n))"
    by (auto simp: is_space_def code_unit_def)
  moreover have "big_body n \<noteq> []"
    by (simp add: big_body_def)
  ultimately have trail: "dropWhile is_space (rev (big_body n)) = rev (big_body n)"
    by (simp add: dropWhile_rev_last)
  show ?thesis by (simp add: trim_def lead trail)
qed

lemma clean_big_body: "clean_generated (big_body n) = big_body n"
proof -
  have "CHR 0x60 \<notin> set (big_body n)"
    by (auto simp: big_body_def)
  then show ?thesis
    by (simp add: clean_generated_def trim_big_body strip_opening_no_backtick strip_closing_no_backtick)
qed

lemma big_body_accepted:
  "gen_code (fst (generateComponent clk w req (oracle_text (big_body n) toks))) = Some (big_body n)"
proof -
  have "prefix ''export default function'' (big_body n)"
    by (simp add: big_body_def)
  then show ?thesis
    by (simp add: generateComponent_def clean_big_body gen_code_def read_clock_def Let_def)
qed

text \<open>
  Claim C4, as the code has it. The gate of \<open>generateComponent\<close> reports failure, never
  success, when the generated text, trimmed and freed of code fences, does not begin
  with \<open>export default function\<close>; the required beginning is the same for every request,
  whatever its component type. After such a failure neither \<open>addMetricTracker\<close> nor
  \<open>addChart\<close> has written a component file or changed the registry document. The gate
  has no bound on the size: a valid component followed by a comment of any length is
  reported as a success with that body.
\<close>

theorem gate_rejects_other_shapes:
  assumes "\<not> prefix ''export default function'' (clean_generated text)"
  shows "generateComponent clk w req (oracle_text text toks)
           = (gen_failure not_export_default_function, w) \<and>
         custom_dir (snd (addMetricTracker clk w (oracle_text text toks) m ct tn)) = custom_dir w \<and>
         active_json (snd (addMetricTracker clk w (oracle_text text toks) m ct tn)) = active_json w \<and>
         custom_dir (snd (addChart clk w (oracle_text text toks) d)) = custom_dir w \<and>
         active_json (snd (addChart clk w (oracle_text text toks) d)) = active_json w \<and>
         gen_code (fst (generateComponent clk w req (oracle_text (big_body n) toks)))
           = Some (big_body n)"
  using gate_failure [OF assms] addMetricTracker_rejected_frame [OF assms]
        addChart_rejected_frame [OF assms] big_body_accepted
  by simp

theorem gate_rejects_other_shapes_witness:
  "\<not> prefix ''export default function'' (clean_generated ''Sorry, I cannot help with that.'') \<and>
   generateComponent ticking_clock fresh_world water_request refusal
     = (gen_failure not_export_default_function, fresh_world) \<and>
   custom_dir (snd (addMetricTracker ticking_clock fresh_world refusal ''water''
                      ''metric_input'' None)) = [] \<and>
   components (active_json (snd (addMetricTracker ticking_clock fresh_world refusal ''water''
                      ''metric_input'' None))) = []"
proof -
  have h: "\<not> prefix ''export default function'' (clean_generated ''Sorry, I cannot help with that.'')"
    by code_simp
  have c: "custom_dir fresh_world = []" "components (active_json fresh_world) = []"
    by (simp_all add: fresh_world_def)
  from h c
    gate_rejects_other_shapes [OF h, of ticking_clock fresh_world water_request 9
       "''water''" "''metric_input''" None "''protein''" 0]
  show ?thesis by (simp add: refusal_def)
qed

text \<open>A body that calls \<open>eval\<close> passes the gate, is saved as \<open>Water.jsx\<close> and registered
  as \<open>Water\<close>; a body of more than a million characters passes the gate as well.\<close>

theorem unsafe_body_accepted_counterexample:
  "str_includes ''export default function Water({ onSave }) { return eval(onSave); }'' ''eval('' \<and>
   gen_code (fst (generateComponent ticking_clock fresh_world water_request eval_component))
     = Some ''export default function Water({ onSave }) { return eval(onSave); }'' \<and>
   loadComponent (snd (addMetricTracker ticking_clock fresh_world eval_component ''water''
                         ''metric_input'' None)) ''Water''
     = Some ''export default function Water({ onSave }) { return eval(onSave); }'' \<and>
   name_registered (snd (addMetricTracker ticking_clock fresh_world eval_component ''water''
                           ''metric_input'' None)) ''Water'' \<and>
   length (big_body 1000000) = 1000049 \<and>
   gen_code (fst (generateComponent ticking_clock fresh_world water_request
                    (oracle_text (big_body 1000000) 2000)))
     = Some (big_body 1000000)"
proof -
  have a: "str_includes ''export default function Water({ onSave }) { return eval(onSave); }'' ''eval(''"
    by code_simp
  have b: "gen_code (fst (generateComponent ticking_clock fresh_world water_request eval_component))
     = Some ''export default function Water({ onSave }) { return eval(onSave); }''"
    by code_simp
  have c: "loadComponent (snd (addMetricTracker ticking_clock fresh_world eval_component ''water''
                         ''metric_input'' None)) ''Water''
     = Some ''export default function Water({ onSave }) { return eval(onSave); }''"
    by code_simp
  have d: "name_registered (snd (addMetricTracker ticking_clock fresh_world eval_component ''water''
                           ''metric_input'' None)) ''Water''"
    by code_simp
  have e: "length (big_body 1000000) = 1000049"
    by (simp add: big_body_def)
  from a b c d e big_body_accepted [of ticking_clock fresh_world water_request 1000000 2000]
  show ?thesis by simp
qed

subsection \<open>Modification processor\<close>

text \<open>Only \<open>createBackup\<close> writes to the backup directories.\<close>

lemma logMigration_backups: "backups_dir (logMigration clk w mig) = backups_dir w"
  by (simp add: logMigration_def read_clock_def Let_def)

lemma addField_backups: "backups_dir (snd (addField clk w t f ty d)) = backups_dir w"
  by (simp add: addField_def read_clock_def Let_def logMigration_backups
           split: option.splits sum.splits)

lemma removeField_backups: "backups_dir (snd (removeField clk w t f soft)) = backups_dir w"
  by (simp add: removeField_def read_clock_def Let_def logMigration_backups
           split: option.splits)

lemma generateComponent_backups:
  "backups_dir (snd (generateComponent clk w req response)) = backups_dir w"
  by (simp add: generateComponent_def read_clock_def Let_def split: oracle_response.splits)

lemma saveComponent_backups: "backups_dir (snd (saveComponent w nm body)) = backups_dir w"
  by (simp add: saveComponent_def)

lemma registerComponent_backups:
  "backups_dir (snd (registerComponent clk w info)) = backups_dir w"
  by (simp add: registerComponent_def read_clock_def Let_def split: option.splits)

lemma unregisterComponent_backups:
  "backups_dir (snd (unregisterComponent clk w nm)) = backups_dir w"
  by (simp add: unregisterComponent_def read_clock_def Let_def split: option.splits)

lemma deleteComponent_backups:
  "backups_dir (snd (deleteComponent clk w nm)) = backups_dir w"
proof (cases "map_of (custom_dir w) (jsx_file nm)")
  case None
  then show ?thesis by (simp add: deleteComponent_def)
next
  case (Some body)
  let ?w1 = "w\<lparr>custom_dir := AList.delete (jsx_file nm) (custom_dir w)\<rparr>"
  have "backups_dir (snd (unregisterComponent clk ?w1 nm)) = backups_dir ?w1"
    by (rule unregisterComponent_backups)
  with Some show ?thesis
    by (cases "unregisterComponent clk ?w1 nm") (simp add: deleteComponent_def)
qed

lemma undo_backups:
  "backups_dir (snd (undoLastModification clk w)) = backups_dir w"
proof -
  have d: "\<And>nm r w1. deleteComponent clk w nm = (r, w1) \<Longrightarrow> backups_dir w1 = backups_dir w"
    using deleteComponent_backups [of clk w] by (metis snd_conv)
  have r: "\<And>t f r w1. removeField clk w t f True = (r, w1) \<Longrightarrow> backups_dir w1 = backups_dir w"
    using removeField_backups [of clk w] by (metis snd_conv)
  show ?thesis
    by (auto simp: undoLastModification_def Let_def d r
             split: option.splits prod.splits sum.splits)
qed

lemma createBackup_snapshot:
  "snapshot_of (snd (createBackup clk w)) (clk (clock_reads w)) w"
  by (simp add: createBackup_def read_clock_def Let_def snapshot_of_def write_file_def
                update_conv')

lemma snapshot_of_cong:
  "backups_dir w2 = backups_dir w1 \<Longrightarrow> snapshot_of w2 dir w = snapshot_of w1 dir w"
  by (simp add: snapshot_of_def)

lemma addMetricTracker_backups:
  "backups_dir (snd (addMetricTracker clk w response m ct tn))
     = backups_dir (snd (createBackup clk w))"
proof -
  obtain b w1 where cb: "createBackup clk w = (b, w1)" by (cases "createBackup clk w")
  obtain r w2 where af:
    "addField clk w1 ''metrics'' (metricToFieldName m) (inferDataType m) None = (r, w2)"
    by (cases "addField clk w1 ''metrics'' (metricToFieldName m) (inferDataType m) None")
  from af addField_backups [of clk w1 "''metrics''" "metricToFieldName m" "inferDataType m" None]
  have b2: "backups_dir w2 = backups_dir w1" by simp
  have g: "\<And>req g w3. generateComponent clk w2 req response = (g, w3)
             \<Longrightarrow> backups_dir w3 = backups_dir w2"
    using generateComponent_backups [of clk w2] by (metis snd_conv)
  have s: "\<And>w3 nm body p w4. saveComponent w3 nm body = (p, w4)
             \<Longrightarrow> backups_dir w4 = backups_dir w3"
    using saveComponent_backups by (metis snd_conv)
  have rg: "\<And>w4 info ok w5. registerComponent clk w4 info = (ok, w5)
             \<Longrightarrow> backups_dir w5 = backups_dir w4"
    using registerComponent_backups by (metis snd_conv)
  have "backups_dir (snd (addMetricTracker clk w response m ct tn)) = backups_dir w1"
    using cb af b2
    by (auto simp: addMetricTracker_def Let_def
             split: sum.splits add_field_result.splits gen_result.splits prod.splits
             dest!: g s rg)
  with cb show ?thesis by simp
qed

lemma removeMetricTracker_backups:
  "backups_dir (snd (removeMetricTracker clk w m)) = backups_dir (snd (createBackup clk w))"
proof -
  obtain b w1 where cb: "createBackup clk w = (b, w1)" by (cases "createBackup clk w")
  have r: "\<And>t f r w2. removeField clk w1 t f True = (r, w2) \<Longrightarrow> backups_dir w2 = backups_dir w1"
    using removeField_backups [of clk w1] by (metis snd_conv)
  have d: "\<And>w2 nm r w3. deleteComponent clk w2 nm = (r, w3) \<Longrightarrow> backups_dir w3 = backups_dir w2"
    using deleteComponent_backups by (metis snd_conv)
  have "backups_dir (snd (removeMetricTracker clk w m)) = backups_dir w1"
    using cb
    by (auto simp: removeMetricTracker_def Let_def
             split: option.splits sum.splits prod.splits dest!: r d)
  with cb show ?thesis by simp
qed

lemma addChart_backups:
  "backups_dir (snd (addChart clk w response d)) = backups_dir (snd (createBackup clk w))"
proof -
  obtain b w1 where cb: "createBackup clk w = (b, w1)" by (cases "createBackup clk w")
  have g: "\<And>req g w2. generateComponent clk w1 req response = (g, w2)
             \<Longrightarrow> backups_dir w2 = backups_dir w1"
    using generateComponent_backups [of clk w1] by (metis snd_conv)
  have s: "\<And>w2 nm body p w3. saveComponent w2 nm body = (p, w3)
             \<Longrightarrow> backups_dir w3 = backups_dir w2"
    using saveComponent_backups by (metis snd_conv)
  have rg: "\<And>w3 info ok w4. registerComponent clk w3 info = (ok, w4)
             \<Longrightarrow> backups_dir w4 = backups_dir w3"
    using registerComponent_backups by (metis snd_conv)
  have "backups_dir (snd (addChart clk w response d)) = backups_dir w1"
    using cb
    by (auto simp: addChart_def Let_def split: gen_result.splits prod.splits dest!: g s rg)
  with cb show ?thesis by simp
qed

text \<open>
  Claim C6. Every mutating transaction takes a snapshot of the store and of the registry
  before it changes anything. This holds for add-metric, remove-metric and add-chart:
  when they return, the backup directory named after the first clock reading holds the
  schema and the registry document of the state they started from. It fails for undo:
  \<open>undoLastModification\<close> never writes a backup, also when it deletes a component file
  and its registry entry (undo after water tracking was added) or appends a soft-delete
  record to the migration log (undo after the refused request to track mood).
\<close>

theorem undo_takes_no_snapshot:
  "snapshot_of (snd (addMetricTracker clk w response m ct tn)) (clk (clock_reads w)) w \<and>
   snapshot_of (snd (removeMetricTracker clk w m)) (clk (clock_reads w)) w \<and>
   snapshot_of (snd (addChart clk w response d)) (clk (clock_reads w)) w \<and>
   backups_dir (snd (undoLastModification clk w)) = backups_dir w \<and>
   backups_dir (snd (undoLastModification ticking_clock water_world)) = backups_dir water_world \<and>
   active_json (snd (undoLastModification ticking_clock water_world)) \<noteq> active_json water_world \<and>
   custom_dir (snd (undoLastModification ticking_clock water_world)) \<noteq> custom_dir water_world \<and>
   migrations_json (snd (undoLastModification ticking_clock (snd mood_refused)))
     \<noteq> migrations_json (snd mood_refused)"
proof -
  have a: "active_json (snd (undoLastModification ticking_clock water_world)) \<noteq> active_json water_world"
    by code_simp
  have c: "custom_dir (snd (undoLastModification ticking_clock water_world)) \<noteq> custom_dir water_world"
    by code_simp
  have m: "migrations_json (snd (undoLastModification ticking_clock (snd mood_refused)))
     \<noteq> migrations_json (snd mood_refused)"
    by code_simp
  show ?thesis
    using a c m createBackup_snapshot [of clk w]
    by (simp add: undo_backups
          snapshot_of_cong [OF addMetricTracker_backups]
          snapshot_of_cong [OF removeMetricTracker_backups]
          snapshot_of_cong [OF addChart_backups])
qed

text \<open>
  Claim C1. A transaction that fails after its backup is to be rolled back to that
  backup. The code never calls \<open>restoreBackup\<close>. When the service answers the request to
  track mood with a refusal, \<open>addMetricTracker\<close> throws after \<open>addField\<close> has succeeded:
  the backup holds the state before the transaction, and the state after it has the
  column \<open>mood\<close> and its migration record and no component. When the component name is
  already registered (\<open>vitamin d3\<close> after \<open>vitamin d 3\<close>), \<open>registerComponent\<close> returns false,
  the result is ignored and success is reported: the new column \<open>vitamin_d3\<close> stays, with
  no component record of its own.
\<close>

theorem failed_transaction_not_restored:
  "fst mood_refused = Inl (generation_failed not_export_default_function) \<and>
   snapshot_of (snd mood_refused) 1000 fresh_world \<and>
   schema_and_registry (snd mood_refused) \<noteq> schema_and_registry fresh_world \<and>
   getActiveFields (snd mood_refused) ''metrics'' = [''id'', ''date'', ''sleep'', ''mood''] \<and>
   map mig_field (listMigrations (snd mood_refused)) = [''mood''] \<and>
   listComponents (snd mood_refused) = [] \<and>
   fst (registerComponent ticking_clock vitamin_world
          \<lparr>c_name = ''VitaminD3'', c_type = ''metric_input'', c_field = Some ''vitamin_d3'',
           c_description = ''vitamin d3'',
           c_path = ''/mnt/user-data/components/custom/VitaminD3.jsx'',
           c_location = ''dashboard'', c_active = True\<rparr>) = False \<and>
   fst vitamin_again = Inr (metric_added ''VitaminD3'' ''vitamin_d3'' 1006) \<and>
   snapshot_of (snd vitamin_again) 1006 vitamin_world \<and>
   schema_and_registry (snd vitamin_again) \<noteq> schema_and_registry vitamin_world \<and>
   getActiveFields (snd vitamin_again) ''metrics''
     = [''id'', ''date'', ''sleep'', ''vitamin_d_3'', ''vitamin_d3''] \<and>
   map c_field (listComponents (snd vitamin_again)) = [Some ''vitamin_d_3'']"
  by code_simp

text \<open>
  Claim C5. After water tracking has been added, undo is to soft-delete the field and
  to unregister the component. \<open>undoLastModification\<close> reverses one of the two records:
  the component is registered later than the migration is logged, so the component is
  deleted and the field \<open>water\<close> stays active; were both stamped with the same
  millisecond, the field would be soft-deleted and the component \<open>Water\<close> would stay
  registered.
\<close>

theorem undo_reverses_one_record_only:
  "fst (addMetricTracker ticking_clock fresh_world water_component ''water''
          ''metric_input'' (Some ''water_intake''))
     = Inr (metric_added ''Water'' ''water'' 1000) \<and>
   map_option d_action (detectModificationRequest ''undo that'') = Some undo \<and>
   fst (undoLastModification ticking_clock water_world) = Inr (undid_component ''water'') \<and>
   listComponents (snd (undoLastModification ticking_clock water_world)) = [] \<and>
   getActiveFields (snd (undoLastModification ticking_clock water_world)) ''metrics''
     = [''id'', ''date'', ''sleep'', ''water''] \<and>
   fst (undoLastModification same_ms_clock water_world_same_ms)
     = Inr (undid_migration ''water'') \<and>
   getActiveFields (snd (undoLastModification same_ms_clock water_world_same_ms)) ''metrics''
     = [''id'', ''date'', ''sleep''] \<and>
   map c_name (listComponents (snd (undoLastModification same_ms_clock water_world_same_ms)))
     = [''Water'']"
  by code_simp

subsection \<open>Intent detection\<close>

text \<open>The generic rule \<open>track ...\<close> matches whenever \<open>track\<close> and a space are followed by some
  character that is not white space.\<close>

lemma star_greedy_total:
  assumes "\<And>s'. k s' \<noteq> None"
  shows "star_greedy a s k \<noteq> None"
  using assms by (induction s) (auto split: option.splits)

lemma star_greedy_split:
  assumes "list_all (atom_matches a) s1" and "k s2 \<noteq> None"
  shows "star_greedy a (s1 @ s2) k \<noteq> None"
  using assms
proof (induction s1)
  case Nil
  then show ?case by (cases s2) (auto split: option.splits)
next
  case (Cons c s1)
  then show ?case by (auto split: option.splits)
qed

lemma match_str_append: "match_str p (p @ s) = Some s"
  by (induction p) (simp_all add: atom_matches_def)

lemma str_match_suffix:
  assumes "rx_match r s (\<lambda>n. None) (\<lambda>s' caps. Some caps) \<noteq> None"
  shows "str_match r (p @ s) \<noteq> None"
proof (induction p)
  case Nil
  from assms show ?case by (cases s) (auto split: option.splits)
next
  case (Cons c p)
  then show ?case by (auto split: option.splits)
qed

lemma split_at_non_space:
  assumes "list_ex (\<lambda>c. \<not> is_space c) m"
  shows "\<exists>s1 c rest. m = s1 @ c # rest \<and> list_all is_space s1 \<and> \<not> is_space c"
  using assms
proof (induction m)
  case Nil
  then show ?case by simp
next
  case (Cons x m)
  show ?case
  proof (cases "is_space x")
    case False
    then have "x # m = [] @ x # m \<and> list_all is_space [] \<and> \<not> is_space x" by simp
    then show ?thesis by blast
  next
    case True
    with Cons obtain s1 c rest where "m = s1 @ c # rest" "list_all is_space s1" "\<not> is_space c"
      by auto
    with True have "x # m = (x # s1) @ c # rest \<and> list_all is_space (x # s1) \<and> \<not> is_space c"
      by simp
    then show ?thesis by blast
  qed
qed

lemma not_space_not_terminator: "\<not> is_space c \<Longrightarrow> \<not> is_line_terminator c"
  by (auto simp: is_space_def is_line_terminator_def)

lemma rx_opt_skip:
  "k s caps \<noteq> None \<Longrightarrow> rx_match (Opt r) s caps k \<noteq> None"
  by (simp split: option.splits)

lemma rx_str_prefix: "rx_match (Str p) (p @ s) caps k = k s caps"
  by (simp add: match_str_append)

lemma rx_plus_split:
  assumes "atom_matches a c0" and "list_all (atom_matches a) s1" and "k s2 caps \<noteq> None"
  shows "rx_match (Plus a) (c0 # s1 @ s2) caps k \<noteq> None"
  using assms by (simp add: star_greedy_split)

lemma rx_capture_plus_total:
  assumes "atom_matches a c" and "\<And>s' caps'. k s' caps' \<noteq> None"
  shows "rx_match (Capture n (Plus a)) (c # rest) caps k \<noteq> None"
  using assms by (simp add: star_greedy_total)

lemma d_action_build_detection: "d_action (build_detection msg act ex caps) = act"
  by (simp add: build_detection_def Let_def split: prod.splits)

lemma pat_track_matches:
  assumes "list_ex (\<lambda>c. \<not> is_space c) m"
  shows "rx_match pat_track (''track '' @ m) (\<lambda>n. None) (\<lambda>s' caps. Some caps) \<noteq> None"
proof -
  from split_at_non_space [OF assms] obtain s1 c rest where
    m: "m = s1 @ c # rest" and ws: "list_all is_space s1" and c: "\<not> is_space c"
    by blast
  define fin :: "string \<Rightarrow> captures \<Rightarrow> captures option" where "fin = (\<lambda>s' caps. Some caps)"
  define k3 where "k3 = (\<lambda>s' caps'. rx_match (Str []) s' caps' fin)"
  define k2 where "k2 = (\<lambda>s' caps'. rx_match (Capture 1 (Plus Dot)) s' caps' k3)"
  define k1 where
    "k1 = (\<lambda>s' caps'. rx_match (Opt (Seq (Str ''my'') (Plus Whitespace))) s' caps' k2)"
  define k0 where "k0 = (\<lambda>s' caps'. rx_match (Plus Whitespace) s' caps' k1)"
  have dot: "atom_matches Dot c"
    using c by (simp add: atom_matches_def not_space_not_terminator)
  have sp: "atom_matches Whitespace CHR '' ''"
    by (simp add: atom_matches_def is_space_def code_unit_def)
  have ws': "list_all (atom_matches Whitespace) s1"
    using ws by (simp add: atom_matches_def list_all_iff)
  have k3_total: "k3 s' caps' \<noteq> None" for s' caps'
    by (simp add: k3_def fin_def)
  have "k2 (c # rest) caps \<noteq> None" for caps
    unfolding k2_def using dot k3_total by (rule rx_capture_plus_total)
  then have "k1 (c # rest) caps \<noteq> None" for caps
    unfolding k1_def by (rule rx_opt_skip)
  then have k0_ok: "k0 (CHR '' '' # s1 @ c # rest) caps \<noteq> None" for caps
    unfolding k0_def using sp ws' by (intro rx_plus_split)
  have "rx_match (Str ''track'') (''track'' @ CHR '' '' # s1 @ c # rest) (\<lambda>n. None) k0 \<noteq> None"
    unfolding rx_str_prefix by (rule k0_ok)
  moreover have "rx_match pat_track s caps fin = rx_match (Str ''track'') s caps k0" for s caps
    by (simp add: pat_track_def seqs_def k0_def k1_def k2_def k3_def del: rx_match.simps(2,5,6,8))
  ultimately show ?thesis
    by (simp add: m fin_def)
qed

lemma track_rule_decides:
  assumes "str_match pat_track msg = Some caps"
  shows "map_option d_action (detectModificationRequest msg) = Some add_metric"
  using assms
  by (cases "str_match pat_add_tracker msg")
     (simp_all add: detectModificationRequest_def triggers_def d_action_build_detection)

text \<open>
  Claim C9. A removal phrasing that contains the word \<open>track\<close> is to be detected as a
  removal. The generic rule \<open>track ...\<close> stands before the rule \<open>i don't ... track ...\<close> in
  the trigger table and matches every message the latter matches on \<open>track\<close>: for every
  subject with a character that is not white space, \<open>i don't track\<close> followed by the
  subject is detected as a request to add the metric. With \<open>use\<close> in place of \<open>track\<close> the
  removal rule is reached.
\<close>

theorem dont_track_detected_as_add:
  assumes "list_ex (\<lambda>c. \<not> is_space c) m"
  shows "map_option d_action (detectModificationRequest (''i don't track '' @ m)) = Some add_metric"
proof -
  have "str_match pat_track (''i don't '' @ (''track '' @ m)) \<noteq> None"
    using pat_track_matches [OF assms] by (rule str_match_suffix)
  then obtain caps where "str_match pat_track (''i don't '' @ (''track '' @ m)) = Some caps"
    by blast
  then have "map_option d_action (detectModificationRequest (''i don't '' @ (''track '' @ m)))
               = Some add_metric"
    by (rule track_rule_decides)
  moreover have "''i don't '' @ (''track '' @ m) = ''i don't track '' @ m"
    by simp
  ultimately show ?thesis by (simp only:)
qed

theorem dont_track_detected_as_add_witness:
  "list_ex (\<lambda>c. \<not> is_space c) ''water'' \<and>
   map_option d_action (detectModificationRequest ''i don't track water'') = Some add_metric \<and>
   map_option metric (detectModificationRequest ''i don't track water'') = Some (Some ''water'') \<and>
   str_match pat_add_tracker ''i don't track water'' = None \<and>
   map_option (\<lambda>caps. caps 1) (str_match pat_track ''i don't track water'') = Some (Some ''water'') \<and>
   map_option (\<lambda>caps. caps 1) (str_match pat_i_dont ''i don't track water'') = Some (Some ''water'') \<and>
   map_option d_action (detectModificationRequest ''i don't use water'') = Some remove_metric"
proof -
  have h: "list_ex (\<lambda>c. \<not> is_space c) ''water''" by code_simp
  have rest:
    "map_option metric (detectModificationRequest ''i don't track water'') = Some (Some ''water'') \<and>
     str_match pat_add_tracker ''i don't track water'' = None \<and>
     map_option (\<lambda>caps. caps 1) (str_match pat_track ''i don't track water'') = Some (Some ''water'') \<and>
     map_option (\<lambda>caps. caps 1) (str_match pat_i_dont ''i don't track water'') = Some (Some ''water'') \<and>
     map_option d_action (detectModificationRequest ''i don't use water'') = Some remove_metric"
    by code_simp
  from h rest dont_track_detected_as_add [OF h] show ?thesis by simp
qed

end
